theory Spec2Isabelle
  imports Main
begin

section \<open>JavaScript values as the client sees them\<close>

text \<open>
  The client reads every response body through \<^verbatim>\<open>response.json\<close>, an untyped
  value. A parsed body is a \<open>json\<close> tree; \<open>jsval\<close> adds JavaScript's
  \<^verbatim>\<open>undefined\<close> (the value of a property that is not there) as \<open>None\<close>.
  An object is the list of its properties, read with \<open>map_of\<close>. Numbers are the
  integers (identifiers, counts and status codes, in the range that JavaScript holds
  exactly and prints in decimal); strings are byte lists (UTF-8), which is what
  \<^verbatim>\<open>TextEncoder\<close> produces and on which \<^verbatim>\<open>startsWith\<close> with an
  ASCII prefix agrees with JavaScript's UTF-16 strings.
\<close>

datatype json =
    JNull
  | JBool bool
  | JNum int
  | JStr string
  | JArr "json list"
  | JObj "(string \<times> json) list"

type_synonym jsval = "json option"

text \<open>
  What a \<^verbatim>\<open>catch\<close> clause can receive: a \<^verbatim>\<open>TypeError\<close> of the
  runtime (a property read on \<^verbatim>\<open>null\<close> or \<^verbatim>\<open>undefined\<close>, a call of
  something that is not a function), or an error object thrown by the host
  (\<^verbatim>\<open>requestUrl\<close>, the \<^verbatim>\<open>json\<close> getter, \<^verbatim>\<open>readBinary\<close>), of
  which the client reads only \<^verbatim>\<open>message\<close>.
\<close>

datatype host_error = HostError "string option"

datatype js_error = TypeError | Host host_error

text \<open>
  The outcome of a block of code: it returns, it throws, or it leaves the part of
  JavaScript that is modelled here (the number that a tag count stands for when it is a
  string, an array or an object, object identity as a \<^verbatim>\<open>Map\<close> key, the
  engine's text of a \<^verbatim>\<open>TypeError\<close>). \<open>Unmodelled\<close> is never turned into
  a value and never caught.
\<close>

datatype 'a run = Ret 'a | Throw js_error | Unmodelled

definition bnd :: "'a run \<Rightarrow> ('a \<Rightarrow> 'b run) \<Rightarrow> 'b run" where
  "bnd r f = (case r of Ret x \<Rightarrow> f x | Throw e \<Rightarrow> Throw e | Unmodelled \<Rightarrow> Unmodelled)"

definition try_catch :: "'a run \<Rightarrow> (js_error \<Rightarrow> 'a run) \<Rightarrow> 'a run" where
  "try_catch r handler = (case r of Throw e \<Rightarrow> handler e | _ \<Rightarrow> r)"

fun truthy :: "json \<Rightarrow> bool" where
  "truthy JNull = False"
| "truthy (JBool b) = b"
| "truthy (JNum n) = (n \<noteq> 0)"
| "truthy (JStr s) = (s \<noteq> [])"
| "truthy (JArr xs) = True"
| "truthy (JObj kvs) = True"

definition truthy_val :: "jsval \<Rightarrow> bool" where
  "truthy_val v = (case v of None \<Rightarrow> False | Some j \<Rightarrow> truthy j)"

definition truthy_str :: "string option \<Rightarrow> bool" where
  "truthy_str v = (case v of None \<Rightarrow> False | Some s \<Rightarrow> s \<noteq> [])"

text \<open>
  \<^verbatim>\<open>x.k\<close> for the property names the client reads (none of them is a built-in
  property of a string, an array, a number or a boolean).
\<close>

fun get_prop :: "json \<Rightarrow> string \<Rightarrow> jsval run" where
  "get_prop JNull k = Throw TypeError"
| "get_prop (JObj kvs) k = Ret (map_of kvs k)"
| "get_prop (JBool b) k = Ret None"
| "get_prop (JNum n) k = Ret None"
| "get_prop (JStr s) k = Ret None"
| "get_prop (JArr xs) k = Ret None"

text \<open>\<^verbatim>\<open>x?.k\<close>: \<^verbatim>\<open>undefined\<close> on \<^verbatim>\<open>null\<close>, no error.\<close>

definition opt_prop :: "json \<Rightarrow> string \<Rightarrow> jsval run" where
  "opt_prop x k = (case x of JNull \<Rightarrow> Ret None | _ \<Rightarrow> get_prop x k)"

subsection \<open>Numbers and values as text\<close>

definition digit_char :: "nat \<Rightarrow> char" where
  "digit_char d =
     (if d = 0 then CHR ''0'' else if d = 1 then CHR ''1'' else if d = 2 then CHR ''2''
      else if d = 3 then CHR ''3'' else if d = 4 then CHR ''4'' else if d = 5 then CHR ''5''
      else if d = 6 then CHR ''6'' else if d = 7 then CHR ''7'' else if d = 8 then CHR ''8''
      else CHR ''9'')"

fun dec :: "nat \<Rightarrow> string" where
  "dec n = (if n < 10 then [digit_char n] else dec (n div 10) @ [digit_char (n mod 10)])"

definition num_str :: "int \<Rightarrow> string" where
  "num_str i = (if i < 0 then CHR ''-'' # dec (nat (- i)) else dec (nat i))"

fun join_with :: "string \<Rightarrow> string list \<Rightarrow> string" where
  "join_with sep [] = []"
| "join_with sep [x] = x"
| "join_with sep (x # y # ys) = x @ sep @ join_with sep (y # ys)"

text \<open>
  \<^verbatim>\<open>ToString(x)\<close>, which a template literal applies, and the element texts of
  \<^verbatim>\<open>Array.prototype.join\<close> (\<^verbatim>\<open>null\<close> is the empty text there). Every
  property of a parsed body is data, so an object that has a property of its own named
  \<^verbatim>\<open>toString\<close> has nothing to call: the conversion throws a
  \<^verbatim>\<open>TypeError\<close>. Any other object is \<^verbatim>\<open>[object Object]\<close>.
\<close>

fun to_string :: "json \<Rightarrow> string run" and elem_strs :: "json list \<Rightarrow> string list run" where
  "to_string JNull = Ret ''null''"
| "to_string (JBool b) = Ret (if b then ''true'' else ''false'')"
| "to_string (JNum n) = Ret (num_str n)"
| "to_string (JStr s) = Ret s"
| "to_string (JArr xs) = bnd (elem_strs xs) (\<lambda>ss. Ret (join_with '','' ss))"
| "to_string (JObj kvs) =
     (if map_of kvs ''toString'' = None then Ret ''[object Object]'' else Throw TypeError)"
| "elem_strs [] = Ret []"
| "elem_strs (x # xs) =
     bnd (case x of JNull \<Rightarrow> Ret [] | _ \<Rightarrow> to_string x) (\<lambda>s.
     bnd (elem_strs xs) (\<lambda>ss. Ret (s # ss)))"

text \<open>A value in a template literal: \<^verbatim>\<open>undefined\<close> has its own text.\<close>

definition tmpl :: "jsval \<Rightarrow> string run" where
  "tmpl v = (case v of None \<Rightarrow> Ret ''undefined'' | Some j \<Rightarrow> to_string j)"

definition tmpl_str :: "string option \<Rightarrow> string" where
  "tmpl_str v = (case v of None \<Rightarrow> ''undefined'' | Some s \<Rightarrow> s)"

text \<open>
  \<^verbatim>\<open>x.join(sep)\<close>: only an array has \<^verbatim>\<open>join\<close>, and it throws when an
  element has no text.
\<close>

definition js_join :: "json \<Rightarrow> string \<Rightarrow> string run" where
  "js_join x sep =
     (case x of
        JArr xs \<Rightarrow> bnd (elem_strs xs) (\<lambda>ss. Ret (join_with sep ss))
      | _ \<Rightarrow> Throw TypeError)"

text \<open>
  \<^verbatim>\<open>x.length > 0\<close>. An array or a string has its length; an object has the
  property of that name, compared as a number; nothing else has a length, and
  \<^verbatim>\<open>undefined > 0\<close> is false. A length that is an object is not a number
  (or throws, when it has a \<^verbatim>\<open>toString\<close> of its own); a length that is an
  array is compared as its text. Whether a text is a number greater than 0 is the
  language's \<^verbatim>\<open>ToNumber\<close>, taken as the parameter \<open>gt0\<close>.
\<close>

definition length_gt0 :: "(string \<Rightarrow> bool) \<Rightarrow> json \<Rightarrow> bool run" where
  "length_gt0 gt0 x =
     (case x of
        JNull \<Rightarrow> Throw TypeError
      | JArr xs \<Rightarrow> Ret (xs \<noteq> [])
      | JStr s \<Rightarrow> Ret (s \<noteq> [])
      | JObj kvs \<Rightarrow>
          (case map_of kvs ''length'' of
             None \<Rightarrow> Ret False
           | Some JNull \<Rightarrow> Ret False
           | Some (JBool b) \<Rightarrow> Ret b
           | Some (JNum n) \<Rightarrow> Ret (0 < n)
           | Some (JObj l) \<Rightarrow> (if map_of l ''toString'' = None then Ret False else Throw TypeError)
           | Some (JStr s) \<Rightarrow> Ret (gt0 s)
           | Some (JArr l) \<Rightarrow> bnd (elem_strs l) (\<lambda>ss. Ret (gt0 (join_with '','' ss))))
      | JBool b \<Rightarrow> Ret False
      | JNum n \<Rightarrow> Ret False)"

section \<open>Settings, requests and the world\<close>

record settings =
  baseUrl :: "string option"
  userApiKey :: "string option"

datatype req_body = NoBody | JSON_stringify json | Buffer string

record request =
  url :: string
  method' :: string
  contentType :: "string option"
  body :: req_body
  headers :: "(string \<times> string option) list"
  throw :: bool

text \<open>
  A response of \<^verbatim>\<open>requestUrl\<close>: the status, and what reading
  \<^verbatim>\<open>response.json\<close> gives (the getter parses the body and throws when it is
  not JSON).
\<close>

record response =
  status :: int
  json :: "host_error + json"

datatype notice = NotifyUser string | NotifyUserError string js_error

text \<open>
  What a call leaves behind: the requests it issued and the notifications it opened,
  oldest first. The network answers a request knowing the requests before it; with
  \<^verbatim>\<open>throw: false\<close> it still throws when no response arrives.
\<close>

record world =
  requests :: "request list"
  notices :: "notice list"

type_synonym network = "request list \<Rightarrow> request \<Rightarrow> host_error + response"

type_synonym 'a io = "world \<Rightarrow> 'a run \<times> world"

definition io_ret :: "'a run \<Rightarrow> 'a io" where
  "io_ret r w = (r, w)"

definition io_bind :: "'a io \<Rightarrow> ('a \<Rightarrow> 'b io) \<Rightarrow> 'b io" where
  "io_bind m f w =
     (case m w of
        (Ret x, w') \<Rightarrow> f x w'
      | (Throw e, w') \<Rightarrow> (Throw e, w')
      | (Unmodelled, w') \<Rightarrow> (Unmodelled, w'))"

definition io_try :: "'a io \<Rightarrow> (js_error \<Rightarrow> 'a io) \<Rightarrow> 'a io" where
  "io_try m handler w =
     (case m w of
        (Throw e, w') \<Rightarrow> handler e w'
      | (Ret x, w') \<Rightarrow> (Ret x, w')
      | (Unmodelled, w') \<Rightarrow> (Unmodelled, w'))"

definition requestUrl :: "network \<Rightarrow> request \<Rightarrow> response io" where
  "requestUrl net rq w =
     (case net (requests w) rq of
        Inl e \<Rightarrow> (Throw (Host e), w\<lparr>requests := requests w @ [rq]\<rparr>)
      | Inr r \<Rightarrow> (Ret r, w\<lparr>requests := requests w @ [rq]\<rparr>))"

definition notifyUser :: "notice \<Rightarrow> unit io" where
  "notifyUser n w = (Ret (), w\<lparr>notices := notices w @ [n]\<rparr>)"

definition read_json :: "response \<Rightarrow> json run" where
  "read_json r = (case json r of Inl e \<Rightarrow> Throw (Host e) | Inr j \<Rightarrow> Ret j)"

text \<open>\<^verbatim>\<open>if (v) ... else ...\<close> on a value that may be \<^verbatim>\<open>undefined\<close>.\<close>

definition when_truthy :: "jsval \<Rightarrow> (json \<Rightarrow> 'a) \<Rightarrow> 'a \<Rightarrow> 'a" where
  "when_truthy v f other = (case v of None \<Rightarrow> other | Some j \<Rightarrow> if truthy j then f j else other)"

text \<open>\<^verbatim>\<open>error.message || fallback\<close>.\<close>

definition message_or :: "host_error \<Rightarrow> string \<Rightarrow> string" where
  "message_or e fallback = (case e of HostError m \<Rightarrow> (if truthy_str m then tmpl_str m else fallback))"

text \<open>
  A \<^verbatim>\<open>catch\<close> that reports \<^verbatim>\<open>error.message\<close>; the text of a
  \<^verbatim>\<open>TypeError\<close> is the engine's.
\<close>

definition caught_message :: "string \<Rightarrow> string \<Rightarrow> js_error \<Rightarrow> string run" where
  "caught_message failed unknown e =
     (case e of
        Host h \<Rightarrow> Ret (failed @ '': '' @ message_or h unknown)
      | TypeError \<Rightarrow> Unmodelled)"

definition api_key_header :: "settings \<Rightarrow> (string \<times> string option) list" where
  "api_key_header st = [(''User-Api-Key'', userApiKey st)]"

definition json_headers :: "settings \<Rightarrow> (string \<times> string option) list" where
  "json_headers st = [(''User-Api-Key'', userApiKey st), (''Content-Type'', Some ''application/json'')]"

definition get_request :: "settings \<Rightarrow> string \<Rightarrow> request" where
  "get_request st path =
     \<lparr>url = tmpl_str (baseUrl st) @ path, method' = ''GET'', contentType = None, body = NoBody,
      headers = api_key_header st, throw = False\<rparr>"

section \<open>The failure path shared by createPost and updatePost\<close>

text \<open>
  Two things the methods take from outside are parameters of the model: \<open>t\<close>, the
  translation of a message key (\<^verbatim>\<open>i18n\<close>), and \<open>gt0\<close>, whether a text is
  a number greater than 0 (see \<open>length_gt0\<close>).
\<close>

text \<open>
  The two \<^verbatim>\<open>if\<close>s inside the inner \<^verbatim>\<open>try\<close> (the same text in
  createPost and updatePost): the value to report when one of them returns,
  \<open>None\<close> when control leaves the \<^verbatim>\<open>try\<close> at its end.
\<close>

definition single_error :: "json \<Rightarrow> jsval run" where
  "single_error errorResponse =
     bnd (get_prop errorResponse ''error'') (\<lambda>e. Ret (if truthy_val e then e else None))"

definition error_of_body :: "(string \<Rightarrow> bool) \<Rightarrow> response \<Rightarrow> jsval run" where
  "error_of_body gt0 response =
     bnd (read_json response) (\<lambda>errorResponse.
     bnd (get_prop errorResponse ''errors'') (\<lambda>errors.
     when_truthy errors
       (\<lambda>es. bnd (length_gt0 gt0 es) (\<lambda>some.
          if some then bnd (js_join es [CHR 0x0A]) (\<lambda>joined. Ret (Some (JStr joined)))
          else single_error errorResponse))
       (single_error errorResponse)))"

definition status_message :: "string \<Rightarrow> int \<Rightarrow> json" where
  "status_message failed code = JStr (failed @ '' ('' @ num_str code @ '')'')"

definition failure_of_response :: "(string \<Rightarrow> bool) \<Rightarrow> string \<Rightarrow> response \<Rightarrow> json run" where
  "failure_of_response gt0 failed response =
     bnd (try_catch (error_of_body gt0 response)
            (\<lambda>parseError. Ret (Some (status_message failed (status response)))))
         (\<lambda>found. Ret (case found of
                          Some e \<Rightarrow> e
                        | None \<Rightarrow> status_message failed (status response)))"

section \<open>updatePost\<close>

record outcome =
  success :: bool

record update_result = outcome +
  error :: jsval

definition post_put :: "settings \<Rightarrow> int \<Rightarrow> string \<Rightarrow> request" where
  "post_put st postId content =
     \<lparr>url = tmpl_str (baseUrl st) @ ''/posts/'' @ num_str postId,
      method' = ''PUT'',
      contentType = Some ''application/json'',
      body = JSON_stringify (JObj
        [(''raw'', JStr content), (''edit_reason'', JStr ''Updated from Obsidian'')]),
      headers = json_headers st,
      throw = False\<rparr>"

definition tags_or_empty :: "string list option \<Rightarrow> json" where
  "tags_or_empty tags = JArr (map JStr (case tags of None \<Rightarrow> [] | Some ts \<Rightarrow> ts))"

definition topic_put :: "settings \<Rightarrow> int \<Rightarrow> string \<Rightarrow> int \<Rightarrow> string list option \<Rightarrow> request" where
  "topic_put st topicId title category tags =
     \<lparr>url = tmpl_str (baseUrl st) @ ''/t/'' @ num_str topicId,
      method' = ''PUT'',
      contentType = Some ''application/json'',
      body = JSON_stringify (JObj
        [(''title'', JStr title), (''category_id'', JNum category), (''tags'', tags_or_empty tags)]),
      headers = json_headers st,
      throw = False\<rparr>"

definition update_failed :: "json \<Rightarrow> update_result" where
  "update_failed e = \<lparr>success = False, error = Some e\<rparr>"

definition updatePost ::
  "(string \<Rightarrow> string) \<Rightarrow> (string \<Rightarrow> bool) \<Rightarrow> network \<Rightarrow> settings \<Rightarrow> int \<Rightarrow> int \<Rightarrow> string
     \<Rightarrow> string \<Rightarrow> int \<Rightarrow> string list option \<Rightarrow> update_result io" where
  "updatePost t gt0 net st postId topicId title content category tags =
     io_try
       (io_bind (requestUrl net (post_put st postId content)) (\<lambda>postResponse.
          if status postResponse \<noteq> 200
          then io_ret (Ret (update_failed (status_message (t ''UPDATE_FAILED'') (status postResponse))))
          else io_bind (requestUrl net (topic_put st topicId title category tags)) (\<lambda>topicResponse.
            if status topicResponse = 200
            then io_ret (Ret \<lparr>success = True, error = None\<rparr>)
            else io_ret (bnd (failure_of_response gt0 (t ''UPDATE_FAILED'') topicResponse)
                           (\<lambda>e. Ret (update_failed e))))))
       (\<lambda>e. io_ret (bnd (caught_message (t ''UPDATE_FAILED'') (t ''UNKNOWN_ERROR'') e)
                       (\<lambda>m. Ret (update_failed (JStr m)))))"

section \<open>createPost\<close>

record create_result = update_result +
  postId :: jsval
  topicId :: jsval

definition createPost_request :: "settings \<Rightarrow> string \<Rightarrow> string \<Rightarrow> int \<Rightarrow> string list option \<Rightarrow> request" where
  "createPost_request st title content category tags =
     \<lparr>url = tmpl_str (baseUrl st) @ ''/posts.json'',
      method' = ''POST'',
      contentType = Some ''application/json'',
      body = JSON_stringify (JObj
        [(''title'', JStr title), (''raw'', JStr content), (''category'', JNum category),
         (''tags'', tags_or_empty tags)]),
      headers = json_headers st,
      throw = False\<rparr>"

definition create_failed :: "json \<Rightarrow> create_result" where
  "create_failed e = \<lparr>success = False, error = Some e, postId = None, topicId = None\<rparr>"

definition created :: "string \<Rightarrow> json \<Rightarrow> create_result run" where
  "created post_id_error responseData =
     (if truthy responseData
      then bnd (get_prop responseData ''id'') (\<lambda>ident.
           if truthy_val ident
           then bnd (get_prop responseData ''topic_id'') (\<lambda>topic.
                Ret \<lparr>success = True, error = None, postId = ident, topicId = topic\<rparr>)
           else Ret (create_failed (JStr post_id_error)))
      else Ret (create_failed (JStr post_id_error)))"

definition createPost ::
  "(string \<Rightarrow> string) \<Rightarrow> (string \<Rightarrow> bool) \<Rightarrow> network \<Rightarrow> settings \<Rightarrow> string \<Rightarrow> string \<Rightarrow> int
     \<Rightarrow> string list option \<Rightarrow> create_result io" where
  "createPost t gt0 net st title content category tags =
     io_try
       (io_bind (requestUrl net (createPost_request st title content category tags)) (\<lambda>response.
          if status response = 200
          then io_ret (bnd (read_json response) (created (t ''POST_ID_ERROR'')))
          else io_ret (bnd (failure_of_response gt0 (t ''PUBLISH_FAILED'') response)
                         (\<lambda>e. Ret (create_failed e)))))
       (\<lambda>e. io_ret (bnd (caught_message (t ''PUBLISH_FAILED'') (t ''UNKNOWN_ERROR'') e)
                       (\<lambda>m. Ret (create_failed (JStr m)))))"

section \<open>testApiKey and checkCanCreateTags\<close>

record test_result = outcome +
  message :: string

definition testApiKey :: "(string \<Rightarrow> string) \<Rightarrow> network \<Rightarrow> settings \<Rightarrow> test_result io" where
  "testApiKey t net st =
     (if \<not> truthy_str (baseUrl st) \<or> \<not> truthy_str (userApiKey st)
      then io_ret (Ret \<lparr>success = False, message = t ''MISSING_SETTINGS''\<rparr>)
      else io_try
        (io_bind (requestUrl net (get_request st ''/site.json'')) (\<lambda>response.
           if status response = 200
           then io_ret (bnd (read_json response) (\<lambda>data.
                  if truthy data
                  then Ret \<lparr>success = True, message = t ''API_TEST_SUCCESS''\<rparr>
                  else Ret \<lparr>success = False, message = t ''API_KEY_INVALID''\<rparr>))
           else io_ret (Ret \<lparr>success = False,
                  message = t ''API_KEY_INVALID'' @ '' ('' @ num_str (status response) @ '')''\<rparr>)))
        (\<lambda>e. io_ret (bnd (caught_message (t ''API_KEY_INVALID'') (t ''UNKNOWN_ERROR'') e)
                        (\<lambda>m. Ret \<lparr>success = False, message = m\<rparr>))))"

text \<open>
  The declared result is a boolean; the value returned on success is the field itself,
  whatever truthy value it holds.
\<close>

definition checkCanCreateTags :: "network \<Rightarrow> settings \<Rightarrow> json io" where
  "checkCanCreateTags net st =
     io_try
       (io_bind (requestUrl net (get_request st ''/site.json'')) (\<lambda>response.
          if status response = 200
          then io_ret (bnd (read_json response) (\<lambda>data.
                 if truthy data
                 then bnd (get_prop data ''can_create_tag'') (\<lambda>c.
                      when_truthy c (\<lambda>v. Ret v) (Ret (JBool False)))
                 else Ret (JBool False)))
          else io_ret (Ret (JBool False))))
       (\<lambda>e. io_ret (Ret (JBool False)))"

section \<open>fetchTopicInfo\<close>

record topic_info =
  tags :: json
  categoryId :: jsval

definition topic_info_of :: "json \<Rightarrow> topic_info run" where
  "topic_info_of data =
     bnd (opt_prop data ''tags'') (\<lambda>ts.
     bnd (opt_prop data ''category_id'') (\<lambda>c.
     Ret \<lparr>tags = when_truthy ts (\<lambda>v. v) (JArr []), categoryId = c\<rparr>))"

definition fetchTopicInfo :: "network \<Rightarrow> settings \<Rightarrow> int \<Rightarrow> topic_info io" where
  "fetchTopicInfo net st topicId' =
     io_try
       (io_bind (requestUrl net (get_request st (''/t/'' @ num_str topicId' @ ''.json''))) (\<lambda>response.
          if status response = 200
          then io_ret (bnd (read_json response) topic_info_of)
          else io_ret (Ret \<lparr>tags = JArr [], categoryId = None\<rparr>)))
       (\<lambda>e. io_bind (notifyUser (NotifyUserError ''Exception while fetching topic info: '' e)) (\<lambda>u.
              io_ret (Ret \<lparr>tags = JArr [], categoryId = None\<rparr>)))"

section \<open>fetchCategories\<close>

record 'a named =
  name :: 'a

record category = "jsval named" +
  id' :: jsval

text \<open>
  \<^verbatim>\<open>xs.forEach(f)\<close> where \<^verbatim>\<open>f\<close> updates local state: only an array
  has \<^verbatim>\<open>forEach\<close>, and an exception in \<^verbatim>\<open>f\<close> ends the loop.
\<close>

fun forEach :: "('a \<Rightarrow> 's \<Rightarrow> 's run) \<Rightarrow> 'a list \<Rightarrow> 's \<Rightarrow> 's run" where
  "forEach f [] s = Ret s"
| "forEach f (x # xs) s = bnd (f x s) (forEach f xs)"

definition js_forEach :: "json \<Rightarrow> (json \<Rightarrow> 's \<Rightarrow> 's run) \<Rightarrow> 's \<Rightarrow> 's run" where
  "js_forEach x f s = (case x of JArr xs \<Rightarrow> forEach f xs s | _ \<Rightarrow> Throw TypeError)"

definition push_subcategory :: "json \<Rightarrow> json \<Rightarrow> category list \<Rightarrow> category list run" where
  "push_subcategory cat subcategory categories =
     bnd (get_prop subcategory ''id'') (\<lambda>i.
     bnd (get_prop cat ''name'') (\<lambda>parent.
     bnd (tmpl parent) (\<lambda>parent_text.
     bnd (get_prop subcategory ''name'') (\<lambda>child.
     bnd (tmpl child) (\<lambda>child_text.
     Ret (categories @ [\<lparr>name = Some (JStr (parent_text @ '' > '' @ child_text)), id' = i\<rparr>]))))))"

definition push_category :: "json \<Rightarrow> category list \<Rightarrow> category list run" where
  "push_category cat categories =
     bnd (get_prop cat ''id'') (\<lambda>i.
     bnd (get_prop cat ''name'') (\<lambda>n.
     bnd (get_prop cat ''subcategory_list'') (\<lambda>subs.
     when_truthy subs
       (\<lambda>l. js_forEach l (push_subcategory cat) (categories @ [\<lparr>name = n, id' = i\<rparr>]))
       (Ret (categories @ [\<lparr>name = n, id' = i\<rparr>])))))"

definition categories_of :: "json \<Rightarrow> category list run" where
  "categories_of data =
     (if truthy data
      then bnd (get_prop data ''category_list'') (\<lambda>cl.
           when_truthy cl
             (\<lambda>l. bnd (get_prop l ''categories'') (\<lambda>cs.
                when_truthy cs (\<lambda>c. js_forEach c push_category []) (Ret [])))
             (Ret []))
      else Ret [])"

definition fetchCategories :: "network \<Rightarrow> settings \<Rightarrow> category list io" where
  "fetchCategories net st =
     io_try
       (io_bind (requestUrl net (get_request st ''/categories.json?include_subcategories=true''))
          (\<lambda>response.
             if status response = 200
             then io_ret (bnd (read_json response) categories_of)
             else io_bind (notifyUser (NotifyUser (''Error fetching categories: '' @ num_str (status response))))
                    (\<lambda>u. io_ret (Ret []))))
       (\<lambda>e. io_bind (notifyUser (NotifyUserError ''Exception while fetching categories: '' e)) (\<lambda>u.
              io_ret (Ret [])))"

section \<open>fetchTags\<close>

record tag = "jsval named" +
  canCreate :: json

text \<open>
  The \<^verbatim>\<open>Map\<close> from a tag's name to \<^verbatim>\<open>{name, count}\<close>, in insertion
  order; the \<^verbatim>\<open>name\<close> of an entry is its key, so an entry is the key and the
  count. \<^verbatim>\<open>set\<close> on a key that is there keeps the key's place. Keys are compared
  by value, which is what the \<^verbatim>\<open>Map\<close> does for every value but an array or an
  object.
\<close>

type_synonym tag_map = "(jsval \<times> int) list"

fun map_set :: "jsval \<Rightarrow> int \<Rightarrow> tag_map \<Rightarrow> tag_map" where
  "map_set k c [] = [(k, c)]"
| "map_set k c ((k', c') # m) = (if k' = k then (k, c) # m else (k', c') # map_set k c m)"

definition map_key :: "jsval \<Rightarrow> jsval run" where
  "map_key n =
     (case n of
        Some (JArr xs) \<Rightarrow> Unmodelled
      | Some (JObj kvs) \<Rightarrow> Unmodelled
      | _ \<Rightarrow> Ret n)"

text \<open>
  \<^verbatim>\<open>tag.count || 0\<close>, as the number that \<^verbatim>\<open>Math.max\<close> and the
  comparison of the sort make of it.
\<close>

definition count_or_0 :: "jsval \<Rightarrow> int run" where
  "count_or_0 c =
     (case c of
        None \<Rightarrow> Ret 0
      | Some JNull \<Rightarrow> Ret 0
      | Some (JBool b) \<Rightarrow> Ret (if b then 1 else 0)
      | Some (JNum n) \<Rightarrow> Ret n
      | Some (JStr s) \<Rightarrow> (if s = [] then Ret 0 else Unmodelled)
      | Some (JArr xs) \<Rightarrow> Unmodelled
      | Some (JObj kvs) \<Rightarrow> Unmodelled)"

definition set_tag :: "json \<Rightarrow> tag_map \<Rightarrow> tag_map run" where
  "set_tag tg allTags =
     bnd (get_prop tg ''name'') (\<lambda>n.
     bnd (map_key n) (\<lambda>k.
     bnd (get_prop tg ''count'') (\<lambda>c.
     bnd (count_or_0 c) (\<lambda>cnt.
     Ret (map_set k cnt allTags)))))"

definition merge_tag :: "json \<Rightarrow> tag_map \<Rightarrow> tag_map run" where
  "merge_tag tg allTags =
     bnd (get_prop tg ''name'') (\<lambda>n.
     bnd (map_key n) (\<lambda>k.
     bnd (get_prop tg ''count'') (\<lambda>c.
     bnd (count_or_0 c) (\<lambda>cnt.
     (case map_of allTags k of
        Some existing \<Rightarrow> Ret (map_set k (max existing cnt) allTags)
      | None \<Rightarrow> Ret (map_set k cnt allTags))))))"

definition merge_group :: "json \<Rightarrow> tag_map \<Rightarrow> tag_map run" where
  "merge_group grp allTags =
     bnd (get_prop grp ''tags'') (\<lambda>ts.
     when_truthy ts (\<lambda>l. js_forEach l merge_tag allTags) (Ret allTags))"

definition all_tags :: "json \<Rightarrow> json \<Rightarrow> tag_map run" where
  "all_tags data topTags =
     bnd (js_forEach topTags set_tag []) (\<lambda>allTags.
     bnd (get_prop data ''extras'') (\<lambda>extras.
     when_truthy extras
       (\<lambda>ex. bnd (get_prop ex ''tag_groups'') (\<lambda>groups.
          when_truthy groups (\<lambda>gs. js_forEach gs merge_group allTags) (Ret allTags)))
       (Ret allTags)))"

text \<open>
  \<^verbatim>\<open>Array.from(allTags.values()).sort((a, b) => b.count - a.count)\<close> and the
  \<^verbatim>\<open>map\<close> after it: the sort is stable and descending in the count, which is
  \<open>sort_key\<close> (an insertion sort) on the negated count.
\<close>

definition sorted_tags :: "json \<Rightarrow> tag_map \<Rightarrow> tag list" where
  "sorted_tags canCreateTags allTags =
     map (\<lambda>e. \<lparr>name = fst e, canCreate = canCreateTags\<rparr>) (sort_key (\<lambda>e. - snd e) allTags)"

definition fetchTags :: "network \<Rightarrow> settings \<Rightarrow> tag list io" where
  "fetchTags net st =
     io_try
       (io_bind (requestUrl net (get_request st ''/tags.json'')) (\<lambda>response.
          if status response = 200
          then io_bind (io_ret (read_json response)) (\<lambda>data.
                 if truthy data
                 then io_bind (io_ret (get_prop data ''tags'')) (\<lambda>topTags.
                        when_truthy topTags
                          (\<lambda>ts. io_bind (checkCanCreateTags net st) (\<lambda>canCreateTags.
                                  io_ret (bnd (all_tags data ts) (\<lambda>allTags.
                                    Ret (sorted_tags canCreateTags allTags)))))
                          (io_ret (Ret [])))
                 else io_ret (Ret []))
          else io_bind (notifyUser (NotifyUser (''Error fetching tags: '' @ num_str (status response))))
                 (\<lambda>u. io_ret (Ret []))))
       (\<lambda>e. io_bind (notifyUser (NotifyUserError ''Exception while fetching tags: '' e)) (\<lambda>u.
              io_ret (Ret [])))"

section \<open>uploadImage\<close>

record tfile = "string named" +
  extension :: string

record upload_result =
  shortUrl :: jsval
  fullUrl :: jsval

definition genBoundary :: "string \<Rightarrow> string" where
  "genBoundary random16 = ''ObsidianBoundary'' @ random16"

definition crlf :: string where
  "crlf = [CHR 0x0D, CHR 0x0A]"

definition upload_request :: "settings \<Rightarrow> tfile \<Rightarrow> string \<Rightarrow> string \<Rightarrow> request" where
  "upload_request st file imgfile boundary =
     (let sBoundary = ''--'' @ boundary @ crlf;
          imgForm = sBoundary @ ''Content-Disposition: form-data; name='' @ [CHR 0x22] @ ''file''
            @ [CHR 0x22] @ ''; filename='' @ [CHR 0x22] @ name file @ [CHR 0x22] @ crlf
            @ ''Content-Type: image/'' @ extension file @ crlf @ crlf;
          parts = crlf @ sBoundary @ ''Content-Disposition: form-data; name='' @ [CHR 0x22]
            @ ''type'' @ [CHR 0x22] @ crlf @ crlf @ ''composer'' @ crlf
            @ sBoundary @ ''Content-Disposition: form-data; name='' @ [CHR 0x22]
            @ ''synchronous'' @ [CHR 0x22] @ crlf @ crlf @ ''true'' @ crlf;
          eBoundary = crlf @ ''--'' @ boundary @ ''--'' @ crlf
      in \<lparr>url = tmpl_str (baseUrl st) @ ''/uploads.json'',
          method' = ''POST'',
          contentType = None,
          body = Buffer (imgForm @ imgfile @ parts @ eBoundary),
          headers = [(''User-Api-Key'', userApiKey st),
                     (''Content-Type'', Some (''multipart/form-data; boundary='' @ boundary))],
          throw = False\<rparr>)"

definition startsWith :: "string \<Rightarrow> string \<Rightarrow> bool" where
  "startsWith s p = (take (length p) s = p)"

text \<open>\<^verbatim>\<open>s.replace(/\/$/, '')\<close>: one slash less when the text ends with one.\<close>

definition strip_slash :: "string \<Rightarrow> string" where
  "strip_slash s = (if s \<noteq> [] \<and> last s = CHR ''/'' then butlast s else s)"

definition full_url :: "settings \<Rightarrow> json \<Rightarrow> jsval run" where
  "full_url st jsonResponse =
     bnd (get_prop jsonResponse ''url'') (\<lambda>u.
     when_truthy u
       (\<lambda>v. case v of
               JStr s \<Rightarrow>
                 if startsWith s ''http://'' \<or> startsWith s ''https://''
                 then Ret (Some (JStr s))
                 else (case baseUrl st of
                         None \<Rightarrow> Throw TypeError
                       | Some b \<Rightarrow>
                           Ret (Some (JStr (strip_slash b @ (if startsWith s ''/'' then s else ''/'' @ s)))))
             | _ \<Rightarrow> Throw TypeError)
       (Ret None))"

definition uploaded :: "settings \<Rightarrow> json \<Rightarrow> upload_result option run" where
  "uploaded st jsonResponse =
     bnd (full_url st jsonResponse) (\<lambda>full.
     bnd (get_prop jsonResponse ''short_url'') (\<lambda>short.
     Ret (Some \<lparr>shortUrl = short, fullUrl = full\<rparr>)))"

text \<open>
  \<open>vault\<close> is \<^verbatim>\<open>app.vault.readBinary\<close>; \<open>random16\<close> is the text of
  \<^verbatim>\<open>Math.random().toString(16).substring(2)\<close> in this call.
\<close>

definition uploadImage ::
  "(tfile \<Rightarrow> host_error + string) \<Rightarrow> string \<Rightarrow> network \<Rightarrow> settings \<Rightarrow> tfile
     \<Rightarrow> upload_result option io" where
  "uploadImage vault random16 net st file =
     io_try
       (io_bind (io_ret (case vault file of Inl e \<Rightarrow> Throw (Host e) | Inr b \<Rightarrow> Ret b)) (\<lambda>imgfile.
        io_bind (requestUrl net (upload_request st file imgfile (genBoundary random16))) (\<lambda>response.
          if status response = 200
          then io_ret (bnd (read_json response) (uploaded st))
          else io_bind (notifyUser (NotifyUser (''Error uploading image: '' @ num_str (status response))))
                 (\<lambda>u. io_ret (Ret None)))))
       (\<lambda>e. io_bind (notifyUser (NotifyUserError ''Exception while uploading image: '' e)) (\<lambda>u.
              io_ret (Ret None)))"

section \<open>Readings of the specification\<close>

text \<open>
  The \<^verbatim>\<open>errors\<close> field has no positive length: it is missing, falsy, or its
  \<^verbatim>\<open>length\<close> is not greater than 0 (an empty array, a number, \<^verbatim>\<open>true\<close>,
  an object without a positive \<^verbatim>\<open>length\<close>).
\<close>

definition no_positive_length :: "(string \<Rightarrow> bool) \<Rightarrow> jsval \<Rightarrow> bool" where
  "no_positive_length gt0 v =
     (case v of None \<Rightarrow> True | Some es \<Rightarrow> \<not> truthy es \<or> length_gt0 gt0 es = Ret False)"

text \<open>A value that has a text, and the text it has.\<close>

definition has_text :: "jsval \<Rightarrow> bool" where
  "has_text v = (case tmpl v of Ret s \<Rightarrow> True | _ \<Rightarrow> False)"

definition text_of :: "jsval \<Rightarrow> string" where
  "text_of v = (case tmpl v of Ret s \<Rightarrow> s | _ \<Rightarrow> [])"

text \<open>
  The join that the specification describes: the base without its trailing slashes, one
  slash, the path without its leading slashes, so that exactly one slash stands where
  the two meet.
\<close>

definition one_slash_join :: "string \<Rightarrow> string \<Rightarrow> string" where
  "one_slash_join base path =
     rev (dropWhile (\<lambda>c. c = CHR ''/'') (rev base)) @ ''/'' @ dropWhile (\<lambda>c. c = CHR ''/'') path"

text \<open>
  A property of a body as the specification speaks of it: the value of the property of an
  object, nothing for anything else.
\<close>

definition field :: "json \<Rightarrow> string \<Rightarrow> jsval" where
  "field d k = (case d of JObj kvs \<Rightarrow> map_of kvs k | _ \<Rightarrow> None)"

text \<open>
  The flattening that the specification describes: a category, then each of its
  subcategories under the name \<^verbatim>\<open>{parent name} > {child name}\<close>.
\<close>

definition subcategories :: "json \<Rightarrow> json list" where
  "subcategories c = (case field c ''subcategory_list'' of Some (JArr ss) \<Rightarrow> ss | _ \<Rightarrow> [])"

definition flattened :: "json \<Rightarrow> category list" where
  "flattened c =
     \<lparr>name = field c ''name'', id' = field c ''id''\<rparr>
     # map (\<lambda>s. \<lparr>name = Some (JStr (text_of (field c ''name'') @ '' > '' @ text_of (field s ''name''))),
                  id' = field s ''id''\<rparr>)
           (subcategories c)"

text \<open>
  A category the loop can walk: it is not \<^verbatim>\<open>null\<close>, and its subcategory list,
  when it has one, is an array without \<^verbatim>\<open>null\<close>; where there are
  subcategories, the category's name and theirs have a text (as every string, number,
  boolean and \<^verbatim>\<open>null\<close> has, and a missing name too).
\<close>

definition shaped_category :: "json \<Rightarrow> bool" where
  "shaped_category c =
     (c \<noteq> JNull \<and>
      (case field c ''subcategory_list'' of
         None \<Rightarrow> True
       | Some (JArr ss) \<Rightarrow>
           (ss = [] \<or> has_text (field c ''name''))
           \<and> list_all (\<lambda>s. s \<noteq> JNull \<and> has_text (field s ''name'')) ss
       | Some j \<Rightarrow> \<not> truthy j))"

text \<open>
  The merge that the specification describes. A tag counts with its \<^verbatim>\<open>count\<close>,
  or 0 without one; the top-level list sets the count of a name, and a tag of a tag group
  raises the count of a name that is there to the maximum of the two.
\<close>

definition count_num :: "jsval \<Rightarrow> int" where
  "count_num c = (case c of Some (JNum n) \<Rightarrow> n | Some (JBool b) \<Rightarrow> (if b then 1 else 0) | _ \<Rightarrow> 0)"

definition entry :: "json \<Rightarrow> jsval \<times> int" where
  "entry tg = (field tg ''name'', count_num (field tg ''count''))"

definition group_tags :: "json \<Rightarrow> json list" where
  "group_tags grp = (case field grp ''tags'' of Some (JArr ts) \<Rightarrow> ts | _ \<Rightarrow> [])"

definition tag_groups :: "json \<Rightarrow> json list" where
  "tag_groups data =
     (case field data ''extras'' of
        Some ex \<Rightarrow> (case field ex ''tag_groups'' of Some (JArr gs) \<Rightarrow> gs | _ \<Rightarrow> [])
      | None \<Rightarrow> [])"

definition top_entries :: "json list \<Rightarrow> (jsval \<times> int) list" where
  "top_entries tops = map entry tops"

definition group_entries :: "json \<Rightarrow> (jsval \<times> int) list" where
  "group_entries data = map entry (concat (map group_tags (tag_groups data)))"

definition counts :: "jsval \<Rightarrow> (jsval \<times> int) list \<Rightarrow> int list" where
  "counts n es = map snd (filter (\<lambda>e. fst e = n) es)"

definition set_entry :: "tag_map \<Rightarrow> jsval \<times> int \<Rightarrow> tag_map" where
  "set_entry m e = map_set (fst e) (snd e) m"

definition merge_entry :: "tag_map \<Rightarrow> jsval \<times> int \<Rightarrow> tag_map" where
  "merge_entry m e =
     (case map_of m (fst e) of
        Some existing \<Rightarrow> map_set (fst e) (max existing (snd e)) m
      | None \<Rightarrow> map_set (fst e) (snd e) m)"

definition merged_tags :: "json \<Rightarrow> json list \<Rightarrow> tag_map" where
  "merged_tags data tops = foldl merge_entry (foldl set_entry [] (top_entries tops)) (group_entries data)"

text \<open>
  A tags response the merge is modelled for: no tag is \<^verbatim>\<open>null\<close>, a name is not
  an array or an object, a count is a number, a boolean, empty or missing, and a list of
  tags or groups, when it is there, is an array.
\<close>

definition shaped_tag :: "json \<Rightarrow> bool" where
  "shaped_tag tg =
     (tg \<noteq> JNull
      \<and> (case field tg ''name'' of Some (JArr xs) \<Rightarrow> False | Some (JObj kvs) \<Rightarrow> False | _ \<Rightarrow> True)
      \<and> (case field tg ''count'' of
            Some (JStr s) \<Rightarrow> s = [] | Some (JArr xs) \<Rightarrow> False | Some (JObj kvs) \<Rightarrow> False
          | _ \<Rightarrow> True))"

definition shaped_group :: "json \<Rightarrow> bool" where
  "shaped_group grp =
     (grp \<noteq> JNull
      \<and> (case field grp ''tags'' of
            None \<Rightarrow> True
          | Some (JArr ts) \<Rightarrow> list_all shaped_tag ts
          | Some j \<Rightarrow> \<not> truthy j))"

definition shaped_tags :: "json \<Rightarrow> json list \<Rightarrow> bool" where
  "shaped_tags data tops =
     (list_all shaped_tag tops
      \<and> (case field data ''extras'' of
            None \<Rightarrow> True
          | Some ex \<Rightarrow>
              \<not> truthy ex
              \<or> (case field ex ''tag_groups'' of
                    None \<Rightarrow> True
                  | Some (JArr gs) \<Rightarrow> list_all shaped_group gs
                  | Some j \<Rightarrow> \<not> truthy j)))"

section \<open>Properties\<close>

declare dec.simps [simp del]

lemmas io_defs = io_try_def io_bind_def io_ret_def requestUrl_def notifyUser_def

lemmas run_defs = bnd_def try_catch_def read_json_def when_truthy_def

lemma num_str_500: "num_str 500 = ''500''"
  by (simp add: num_str_def dec.simps digit_char_def)

lemma post_put_not_topic_put:
  "url (post_put st pid content) \<noteq> url (topic_put st tid title category tgs)"
  by (simp add: post_put_def topic_put_def)

subsection \<open>updatePost stops after a failed body update\<close>

text \<open>
  C1. Whenever the first PUT (the post body) is answered with a status other than 200,
  updatePost returns \<open>success = False\<close> with the update-failed message that carries
  the status, and the only request it has issued is that first PUT: the PUT to the topic
  endpoint (title, category, tags), which is a different URL, is not sent.
\<close>

theorem updatePost_short_circuit:
  assumes "net (requests w) (post_put st pid content) = Inr r" and "status r \<noteq> 200"
  shows "updatePost t gt0 net st pid tid title content category tgs w =
           (Ret \<lparr>success = False,
                 error = Some (JStr (t ''UPDATE_FAILED'' @ '' ('' @ num_str (status r) @ '')''))\<rparr>,
            w\<lparr>requests := requests w @ [post_put st pid content]\<rparr>)
         \<and> url (post_put st pid content) \<noteq> url (topic_put st tid title category tgs)"
  using assms
  by (simp add: updatePost_def io_defs update_failed_def status_message_def post_put_not_topic_put)

theorem updatePost_short_circuit_witness:
  "updatePost (\<lambda>k. k) (\<lambda>s. False) (\<lambda>h rq. Inr \<lparr>status = 500, json = Inl (HostError None)\<rparr>)
     \<lparr>baseUrl = Some ''https://forum.example'', userApiKey = Some ''key''\<rparr>
     12 7 ''Title'' ''Body'' 3 (Some [''a''])
     \<lparr>requests = [], notices = []\<rparr>
   = (Ret \<lparr>success = False, error = Some (JStr ''UPDATE_FAILED (500)'')\<rparr>,
      \<lparr>requests = [post_put \<lparr>baseUrl = Some ''https://forum.example'', userApiKey = Some ''key''\<rparr> 12 ''Body''],
       notices = []\<rparr>)"
  using updatePost_short_circuit [of "\<lambda>h rq. Inr \<lparr>status = 500, json = Inl (HostError None)\<rparr>"
      "\<lparr>requests = [], notices = []\<rparr>"
      "\<lparr>baseUrl = Some ''https://forum.example'', userApiKey = Some ''key''\<rparr>" 12 "''Body''"
      "\<lparr>status = 500, json = Inl (HostError None)\<rparr>" "\<lambda>k. k" "\<lambda>s. False" 7 "''Title''" 3 "Some [''a'']"]
  by (simp add: num_str_500)

subsection \<open>testApiKey without settings\<close>

text \<open>
  C7. When the base URL or the API key is empty or unset, testApiKey returns
  \<open>success = False\<close> with the missing-settings message and leaves the world as it
  was: no request is issued (and no notification opened).
\<close>

theorem testApiKey_missing_settings:
  assumes "\<not> truthy_str (baseUrl st) \<or> \<not> truthy_str (userApiKey st)"
  shows "testApiKey t net st w = (Ret \<lparr>success = False, message = t ''MISSING_SETTINGS''\<rparr>, w)"
  using assms by (auto simp add: testApiKey_def io_defs)

theorem testApiKey_missing_settings_witness:
  "testApiKey (\<lambda>k. k) (\<lambda>h rq. Inr \<lparr>status = 200, json = Inr (JObj [])\<rparr>)
     \<lparr>baseUrl = Some ''https://forum.example'', userApiKey = Some []\<rparr>
     \<lparr>requests = [], notices = []\<rparr>
   = (Ret \<lparr>success = False, message = ''MISSING_SETTINGS''\<rparr>, \<lparr>requests = [], notices = []\<rparr>)"
  using testApiKey_missing_settings [of "\<lparr>baseUrl = Some ''https://forum.example'', userApiKey = Some []\<rparr>"
      "\<lambda>k. k" "\<lambda>h rq. Inr \<lparr>status = 200, json = Inr (JObj [])\<rparr>" "\<lparr>requests = [], notices = []\<rparr>"]
  by (simp add: truthy_str_def)

lemma topic_info_of_returns: "\<exists>i. topic_info_of data = Ret i"
  by (cases data) (simp_all add: topic_info_of_def opt_prop_def run_defs)

lemma site_not_tags: "url (get_request st ''/site.json'') \<noteq> url (get_request st ''/tags.json'')"
  by (simp add: get_request_def)

subsection \<open>checkCanCreateTags is silent\<close>

text \<open>
  C8. checkCanCreateTags always returns a value (it never throws), it opens no
  notification (the world changes by the one request to \<^verbatim>\<open>/site.json\<close> only), and
  the value is \<^verbatim>\<open>false\<close> unless the answer has status 200 and a body with a truthy
  \<^verbatim>\<open>can_create_tag\<close> field, in which case it is that field's value. So a status
  other than 200, a thrown exception and a 200 body without a truthy field all give
  \<^verbatim>\<open>false\<close>.
\<close>

theorem checkCanCreateTags_silent:
  "\<exists>v. checkCanCreateTags net st w
          = (Ret v, w\<lparr>requests := requests w @ [get_request st ''/site.json'']\<rparr>)
     \<and> (v \<noteq> JBool False \<longrightarrow> truthy v \<and>
          (\<exists>r kvs. net (requests w) (get_request st ''/site.json'') = Inr r \<and> status r = 200
             \<and> json r = Inr (JObj kvs) \<and> map_of kvs ''can_create_tag'' = Some v))
     \<and> (\<forall>r kvs c. net (requests w) (get_request st ''/site.json'') = Inr r \<and> status r = 200
             \<and> json r = Inr (JObj kvs) \<and> map_of kvs ''can_create_tag'' = Some c \<and> truthy c
           \<longrightarrow> v = c)"
proof (cases "net (requests w) (get_request st ''/site.json'')")
  case (Inl e)
  then show ?thesis by (simp add: checkCanCreateTags_def io_defs)
next
  case (Inr r)
  show ?thesis
  proof (cases "status r = 200")
    case False
    with Inr show ?thesis by (simp add: checkCanCreateTags_def io_defs)
  next
    case True
    show ?thesis
    proof (cases "json r")
      case (Inl e)
      with Inr True show ?thesis by (simp add: checkCanCreateTags_def io_defs run_defs)
    next
      case body: (Inr data)
      with Inr True show ?thesis
        by (cases data) (auto simp add: checkCanCreateTags_def io_defs run_defs split: option.splits)
    qed
  qed
qed

theorem checkCanCreateTags_silent_witness:
  "checkCanCreateTags (\<lambda>h rq. Inr \<lparr>status = 200, json = Inr (JObj [(''default_archetype'', JStr ''regular'')])\<rparr>)
     \<lparr>baseUrl = Some ''https://forum.example'', userApiKey = Some ''key''\<rparr>
     \<lparr>requests = [], notices = []\<rparr>
   = (Ret (JBool False),
      \<lparr>requests = [get_request \<lparr>baseUrl = Some ''https://forum.example'', userApiKey = Some ''key''\<rparr> ''/site.json''],
       notices = []\<rparr>)"
  using checkCanCreateTags_silent [of
      "\<lambda>h rq. Inr \<lparr>status = 200, json = Inr (JObj [(''default_archetype'', JStr ''regular'')])\<rparr>"
      "\<lparr>baseUrl = Some ''https://forum.example'', userApiKey = Some ''key''\<rparr>"
      "\<lparr>requests = [], notices = []\<rparr>"]
  by auto

subsection \<open>fetchTags without a tag list\<close>

text \<open>
  C9. When the tags request is answered with status 200 and the body has no truthy
  top-level \<^verbatim>\<open>tags\<close> field (the field is missing or falsy, or the body is not an
  object at all, or cannot be parsed), fetchTags returns the empty list and the only
  request it has issued is the one to \<^verbatim>\<open>/tags.json\<close>: the probe of
  \<^verbatim>\<open>/site.json\<close>, a different URL, is not sent.
\<close>

theorem fetchTags_no_probe_without_tags:
  assumes "net (requests w) (get_request st ''/tags.json'') = Inr r"
      and "status r = 200"
      and "\<forall>kvs ts. json r = Inr (JObj kvs) \<and> map_of kvs ''tags'' = Some ts \<longrightarrow> \<not> truthy ts"
  shows "fst (fetchTags net st w) = Ret []
         \<and> requests (snd (fetchTags net st w)) = requests w @ [get_request st ''/tags.json'']
         \<and> url (get_request st ''/site.json'') \<noteq> url (get_request st ''/tags.json'')"
proof (cases "json r")
  case (Inl e)
  with assms show ?thesis by (simp add: fetchTags_def io_defs run_defs site_not_tags)
next
  case body: (Inr data)
  with assms show ?thesis
    by (cases data)
       (auto simp add: fetchTags_def io_defs run_defs site_not_tags split: option.splits)
qed

theorem fetchTags_no_probe_without_tags_witness:
  "fst (fetchTags (\<lambda>h rq. Inr \<lparr>status = 200, json = Inr (JObj [(''tags'', JNull)])\<rparr>)
     \<lparr>baseUrl = Some ''https://forum.example'', userApiKey = Some ''key''\<rparr>
     \<lparr>requests = [], notices = []\<rparr>) = Ret []
   \<and> requests (snd (fetchTags (\<lambda>h rq. Inr \<lparr>status = 200, json = Inr (JObj [(''tags'', JNull)])\<rparr>)
     \<lparr>baseUrl = Some ''https://forum.example'', userApiKey = Some ''key''\<rparr>
     \<lparr>requests = [], notices = []\<rparr>))
     = [get_request \<lparr>baseUrl = Some ''https://forum.example'', userApiKey = Some ''key''\<rparr> ''/tags.json'']"
  using fetchTags_no_probe_without_tags [of "\<lambda>h rq. Inr \<lparr>status = 200, json = Inr (JObj [(''tags'', JNull)])\<rparr>"
      "\<lparr>requests = [], notices = []\<rparr>"
      "\<lparr>baseUrl = Some ''https://forum.example'', userApiKey = Some ''key''\<rparr>"
      "\<lparr>status = 200, json = Inr (JObj [(''tags'', JNull)])\<rparr>"]
  by simp

subsection \<open>fetchTopicInfo on failure\<close>

text \<open>
  C10. When the topic request is answered with a status other than 200, fetchTopicInfo
  returns \<^verbatim>\<open>{tags: []}\<close> without a category and opens no notification. It opens a
  notification exactly when an exception is thrown (by the request, or by reading the
  body of a 200 answer), and then it returns the same \<^verbatim>\<open>{tags: []}\<close>.
\<close>

theorem fetchTopicInfo_failure:
  "(\<forall>r. net (requests w) (get_request st (''/t/'' @ num_str tid @ ''.json'')) = Inr r \<and> status r \<noteq> 200
      \<longrightarrow> fetchTopicInfo net st tid w
            = (Ret \<lparr>tags = JArr [], categoryId = None\<rparr>,
               w\<lparr>requests := requests w @ [get_request st (''/t/'' @ num_str tid @ ''.json'')]\<rparr>))
   \<and> (notices (snd (fetchTopicInfo net st tid w)) \<noteq> notices w
        \<longleftrightarrow> (\<exists>e. net (requests w) (get_request st (''/t/'' @ num_str tid @ ''.json'')) = Inl e)
          \<or> (\<exists>r e. net (requests w) (get_request st (''/t/'' @ num_str tid @ ''.json'')) = Inr r
                \<and> status r = 200 \<and> json r = Inl e))
   \<and> (notices (snd (fetchTopicInfo net st tid w)) \<noteq> notices w
        \<longrightarrow> fst (fetchTopicInfo net st tid w) = Ret \<lparr>tags = JArr [], categoryId = None\<rparr>)"
proof (cases "net (requests w) (get_request st (''/t/'' @ num_str tid @ ''.json''))")
  case (Inl e)
  then show ?thesis by (simp add: fetchTopicInfo_def io_defs)
next
  case (Inr r)
  show ?thesis
  proof (cases "status r = 200")
    case False
    with Inr show ?thesis by (simp add: fetchTopicInfo_def io_defs)
  next
    case True
    show ?thesis
    proof (cases "json r")
      case (Inl e)
      with Inr True show ?thesis by (simp add: fetchTopicInfo_def io_defs run_defs)
    next
      case body: (Inr data)
      obtain i where "topic_info_of data = Ret i" using topic_info_of_returns by blast
      with Inr True body show ?thesis by (simp add: fetchTopicInfo_def io_defs run_defs)
    qed
  qed
qed

theorem fetchTopicInfo_failure_witness:
  "fetchTopicInfo (\<lambda>h rq. Inr \<lparr>status = 404, json = Inr (JObj [(''tags'', JArr [JStr ''a''])])\<rparr>)
     \<lparr>baseUrl = Some ''https://forum.example'', userApiKey = Some ''key''\<rparr> 7
     \<lparr>requests = [], notices = []\<rparr>
   = (Ret \<lparr>tags = JArr [], categoryId = None\<rparr>,
      \<lparr>requests = [get_request \<lparr>baseUrl = Some ''https://forum.example'', userApiKey = Some ''key''\<rparr>
                     (''/t/'' @ num_str 7 @ ''.json'')],
       notices = []\<rparr>)"
  using fetchTopicInfo_failure [of "\<lambda>h rq. Inr \<lparr>status = 404, json = Inr (JObj [(''tags'', JArr [JStr ''a''])])\<rparr>"
      "\<lparr>requests = [], notices = []\<rparr>"
      "\<lparr>baseUrl = Some ''https://forum.example'', userApiKey = Some ''key''\<rparr>" 7]
  by simp

lemma num_str_422: "num_str 422 = ''422''"
  by (simp add: num_str_def dec.simps digit_char_def)

lemma to_string_modelled: "to_string x \<noteq> Unmodelled" and elem_strs_modelled: "elem_strs xs \<noteq> Unmodelled"
  by (induction x and xs rule: to_string_elem_strs.induct)
     (auto simp add: bnd_def split: run.splits json.splits)

lemma length_gt0_modelled: "length_gt0 gt0 es \<noteq> Unmodelled"
  using elem_strs_modelled
  by (auto simp add: length_gt0_def bnd_def split: json.splits option.splits run.splits)

lemma failure_of_response_not_thrown: "failure_of_response gt0 f r \<noteq> Throw e"
  by (simp add: failure_of_response_def run_defs split: run.splits)

lemma createPost_non200:
  assumes "net (requests w) (createPost_request st title content category tgs) = Inr r"
      and "status r \<noteq> 200"
  shows "fst (createPost t gt0 net st title content category tgs w)
         = bnd (failure_of_response gt0 (t ''PUBLISH_FAILED'') r) (\<lambda>e. Ret (create_failed e))"
  using assms
  by (cases "failure_of_response gt0 (t ''PUBLISH_FAILED'') r")
     (simp_all add: createPost_def io_defs bnd_def failure_of_response_not_thrown)

lemma error_of_body_joined:
  assumes "json r = Inr (JObj kvs)" and "map_of kvs ''errors'' = Some (JArr es)" and "es \<noteq> []"
      and "elem_strs es = Ret ss"
  shows "error_of_body gt0 r = Ret (Some (JStr (join_with [CHR 0x0A] ss)))"
  using assms by (simp add: error_of_body_def run_defs length_gt0_def js_join_def)

lemma error_of_body_single:
  assumes "json r = Inr (JObj kvs)" and "no_positive_length gt0 (map_of kvs ''errors'')"
  shows "error_of_body gt0 r
         = Ret (if truthy_val (map_of kvs ''error'') then map_of kvs ''error'' else None)"
  using assms
  by (auto simp add: error_of_body_def run_defs no_positive_length_def single_error_def
           split: option.splits)

lemma error_of_body_not_object:
  assumes "json r = Inr d" and "\<forall>kvs. d \<noteq> JObj kvs"
  shows "error_of_body gt0 r = Ret None \<or> error_of_body gt0 r = Throw TypeError"
  using assms by (cases d) (simp_all add: error_of_body_def run_defs single_error_def truthy_val_def)

lemma error_of_body_positive:
  assumes "json r = Inr (JObj kvs)" and "map_of kvs ''errors'' = Some es" and "truthy es"
      and "length_gt0 gt0 es \<noteq> Ret False"
      and "\<forall>xs ss. es = JArr xs \<longrightarrow> elem_strs xs \<noteq> Ret ss"
  shows "\<exists>e. error_of_body gt0 r = Throw e"
proof (cases "length_gt0 gt0 es")
  case (Ret b)
  with assms(4) have b: "b" by simp
  have "\<exists>e. js_join es [CHR 0x0A] = Throw e"
  proof (cases es)
    case (JArr xs)
    with assms(5) elem_strs_modelled [of xs] obtain e where "elem_strs xs = Throw e"
      by (cases "elem_strs xs") auto
    with JArr show ?thesis by (simp add: js_join_def bnd_def)
  qed (simp_all add: js_join_def)
  with assms(1-3) Ret b show ?thesis
    by (auto simp add: error_of_body_def run_defs)
next
  case (Throw e)
  with assms(1-3) show ?thesis by (simp add: error_of_body_def run_defs)
next
  case Unmodelled
  with length_gt0_modelled show ?thesis by blast
qed

lemma generic_of_throw_or_none:
  assumes "(\<exists>e. error_of_body gt0 r = Throw e) \<or> error_of_body gt0 r = Ret None"
  shows "failure_of_response gt0 f r = Ret (status_message f (status r))"
  using assms by (auto simp add: failure_of_response_def run_defs)

lemma get_prop_field: "d \<noteq> JNull \<Longrightarrow> get_prop d k = Ret (field d k)"
  by (cases d) (simp_all add: field_def)

lemma tmpl_text_of: "has_text v \<Longrightarrow> tmpl v = Ret (text_of v)"
  by (cases "tmpl v") (simp_all add: has_text_def text_of_def)

lemma forEach_push_subcategory:
  assumes "c \<noteq> JNull" and "has_text (field c ''name'')"
      and "list_all (\<lambda>s. s \<noteq> JNull \<and> has_text (field s ''name'')) ss"
  shows "forEach (push_subcategory c) ss acc
         = Ret (acc @ map (\<lambda>s. \<lparr>name = Some (JStr (text_of (field c ''name'') @ '' > ''
                                                       @ text_of (field s ''name''))),
                                 id' = field s ''id''\<rparr>) ss)"
  using assms
  by (induction ss arbitrary: acc)
     (simp_all add: push_subcategory_def get_prop_field tmpl_text_of bnd_def)

lemma push_category_flattened:
  assumes "shaped_category c"
  shows "push_category c acc = Ret (acc @ flattened c)"
proof -
  from assms have c: "c \<noteq> JNull" by (simp add: shaped_category_def)
  show ?thesis
  proof (cases "field c ''subcategory_list''")
    case None
    with c show ?thesis
      by (simp add: push_category_def get_prop_field run_defs flattened_def subcategories_def)
  next
    case (Some l)
    show ?thesis
    proof (cases "\<exists>ss. l = JArr ss")
      case True
      then obtain ss where l: "l = JArr ss" by blast
      with assms Some have ss: "ss = [] \<or> has_text (field c ''name'')"
          "list_all (\<lambda>s. s \<noteq> JNull \<and> has_text (field s ''name'')) ss"
        by (simp_all add: shaped_category_def)
      have "forEach (push_subcategory c) ss (acc @ [\<lparr>name = field c ''name'', id' = field c ''id''\<rparr>])
            = Ret ((acc @ [\<lparr>name = field c ''name'', id' = field c ''id''\<rparr>])
                 @ map (\<lambda>s. \<lparr>name = Some (JStr (text_of (field c ''name'') @ '' > ''
                                                   @ text_of (field s ''name''))),
                              id' = field s ''id''\<rparr>) ss)"
      proof (cases "ss = []")
        case True
        then show ?thesis by simp
      next
        case False
        with ss(1) have "has_text (field c ''name'')" by simp
        with c show ?thesis using ss(2) by (rule forEach_push_subcategory)
      qed
      with c Some l show ?thesis
        by (simp add: push_category_def get_prop_field run_defs js_forEach_def
              flattened_def subcategories_def)
    next
      case False
      with assms Some have "\<not> truthy l" by (cases l) (simp_all add: shaped_category_def)
      with c Some False show ?thesis
        by (cases l) (simp_all add: push_category_def get_prop_field run_defs flattened_def subcategories_def)
    qed
  qed
qed

lemma forEach_push_category:
  assumes "\<forall>c \<in> set cats. shaped_category c"
  shows "forEach push_category cats acc = Ret (acc @ concat (map flattened cats))"
  using assms
  by (induction cats arbitrary: acc) (simp_all add: push_category_flattened bnd_def)

lemma created_cases:
  "created pe d =
     (case d of
        JObj kvs \<Rightarrow>
          (case map_of kvs ''id'' of
             Some i \<Rightarrow> if truthy i
                       then Ret \<lparr>success = True, error = None, postId = Some i, topicId = map_of kvs ''topic_id''\<rparr>
                       else Ret (create_failed (JStr pe))
           | None \<Rightarrow> Ret (create_failed (JStr pe)))
      | _ \<Rightarrow> Ret (create_failed (JStr pe)))"
  by (cases d) (simp_all add: created_def run_defs truthy_val_def split: option.splits)

lemma createPost_200:
  assumes "net (requests w) (createPost_request st title content category tgs) = Inr r"
      and "status r = 200" and "json r = Inr d"
  shows "fst (createPost t gt0 net st title content category tgs w) = created (t ''POST_ID_ERROR'') d"
  using assms
  by (simp add: createPost_def io_defs run_defs created_cases create_failed_def
           split: json.splits option.splits)

lemma createPost_200_unreadable:
  assumes "net (requests w) (createPost_request st title content category tgs) = Inr r"
      and "status r = 200" and "json r = Inl h"
  shows "fst (createPost t gt0 net st title content category tgs w)
         = Ret (create_failed (JStr (t ''PUBLISH_FAILED'' @ '': '' @ message_or h (t ''UNKNOWN_ERROR''))))"
  using assms
  by (simp add: createPost_def io_defs run_defs caught_message_def)

lemma strip_slash_once:
  assumes "\<not> startsWith (rev b) ''//''"
  shows "rev (dropWhile (\<lambda>c. c = CHR ''/'') (rev b)) = strip_slash b"
proof (cases "rev b")
  case Nil
  then show ?thesis by (simp add: strip_slash_def)
next
  case (Cons c cs)
  then have b: "b = rev cs @ [c]" by (metis rev.simps(2) rev_rev_ident)
  show ?thesis
  proof (cases "c = CHR ''/''")
    case False
    with Cons b show ?thesis by (simp add: strip_slash_def)
  next
    case True
    with assms Cons have "cs = [] \<or> hd cs \<noteq> CHR ''/''"
      by (cases cs) (simp_all add: startsWith_def)
    then have "dropWhile (\<lambda>c. c = CHR ''/'') cs = cs" by (cases cs) auto
    with True Cons b show ?thesis by (simp add: strip_slash_def)
  qed
qed

lemma lead_slash_once:
  assumes "u \<noteq> []" and "\<not> startsWith u ''//''"
  shows "''/'' @ dropWhile (\<lambda>c. c = CHR ''/'') u = (if startsWith u ''/'' then u else ''/'' @ u)"
proof (cases u)
  case Nil
  with assms show ?thesis by simp
next
  case (Cons c cs)
  show ?thesis
  proof (cases "c = CHR ''/''")
    case False
    with Cons show ?thesis by (simp add: startsWith_def)
  next
    case True
    with assms Cons have "cs = [] \<or> hd cs \<noteq> CHR ''/''"
      by (cases cs) (simp_all add: startsWith_def)
    then have "dropWhile (\<lambda>c. c = CHR ''/'') cs = cs" by (cases cs) auto
    with True Cons show ?thesis by (simp add: startsWith_def)
  qed
qed

lemma uploadImage_200:
  assumes "vault file = Inr bytes"
      and "net (requests w) (upload_request st file bytes (genBoundary rnd)) = Inr r"
      and "status r = 200" and "json r = Inr d" and "uploaded st d = Ret x"
  shows "fst (uploadImage vault rnd net st file w) = Ret x"
  using assms by (simp add: uploadImage_def io_defs run_defs)

subsection \<open>When createPost succeeds\<close>

text \<open>
  C2, as amended. For every response to the POST, createPost returns
  \<open>success = True\<close> if and only if the status is 200 and the body is an object whose
  \<^verbatim>\<open>id\<close> is truthy (for a number: not 0); \<open>postId\<close> and \<open>topicId\<close> are then
  the body's \<^verbatim>\<open>id\<close> and \<^verbatim>\<open>topic_id\<close>. A 200 response whose parsed body has
  no truthy \<^verbatim>\<open>id\<close> gives \<open>success = False\<close> with the POST_ID_ERROR message.
\<close>

theorem createPost_success_iff:
  assumes "net (requests w) (createPost_request st title content category tgs) = Inr r"
  shows "((\<exists>res. fst (createPost t gt0 net st title content category tgs w) = Ret res \<and> success res)
            \<longleftrightarrow> status r = 200
                \<and> (\<exists>kvs i. json r = Inr (JObj kvs) \<and> map_of kvs ''id'' = Some i \<and> truthy i))
       \<and> (\<forall>kvs i. status r = 200 \<and> json r = Inr (JObj kvs) \<and> map_of kvs ''id'' = Some i \<and> truthy i
            \<longrightarrow> fst (createPost t gt0 net st title content category tgs w)
                 = Ret \<lparr>success = True, error = None, postId = Some i,
                        topicId = map_of kvs ''topic_id''\<rparr>)
       \<and> (\<forall>d. status r = 200 \<and> json r = Inr d
               \<and> \<not> (\<exists>kvs i. d = JObj kvs \<and> map_of kvs ''id'' = Some i \<and> truthy i)
            \<longrightarrow> fst (createPost t gt0 net st title content category tgs w)
                 = Ret \<lparr>success = False, error = Some (JStr (t ''POST_ID_ERROR'')),
                        postId = None, topicId = None\<rparr>)"
proof (cases "status r = 200")
  case False
  have "fst (createPost t gt0 net st title content category tgs w)
        = bnd (failure_of_response gt0 (t ''PUBLISH_FAILED'') r) (\<lambda>e. Ret (create_failed e))"
    using assms False by (rule createPost_non200)
  then have "\<not> (\<exists>res. fst (createPost t gt0 net st title content category tgs w) = Ret res \<and> success res)"
    by (auto simp add: bnd_def create_failed_def split: run.splits)
  with False show ?thesis by simp
next
  case True
  show ?thesis
  proof (cases "json r")
    case (Inl h)
    with assms True show ?thesis
      by (simp add: createPost_200_unreadable create_failed_def)
  next
    case (Inr d)
    with assms True have "fst (createPost t gt0 net st title content category tgs w)
        = created (t ''POST_ID_ERROR'') d"
      by (simp add: createPost_200)
    with True Inr show ?thesis
      by (auto simp add: created_cases create_failed_def split: json.splits option.splits if_splits)
  qed
qed

theorem createPost_success_iff_witness:
  "fst (createPost (\<lambda>k. k) (\<lambda>s. False)
          (\<lambda>h rq. Inr \<lparr>status = 200, json = Inr (JObj [(''id'', JNum 41), (''topic_id'', JNum 7)])\<rparr>)
          \<lparr>baseUrl = Some ''https://forum.example'', userApiKey = Some ''key''\<rparr>
          ''Title'' ''Body'' 3 (Some [''a'']) \<lparr>requests = [], notices = []\<rparr>)
   = Ret \<lparr>success = True, error = None, postId = Some (JNum 41), topicId = Some (JNum 7)\<rparr>"
  using createPost_success_iff [of
      "\<lambda>h rq. Inr \<lparr>status = 200, json = Inr (JObj [(''id'', JNum 41), (''topic_id'', JNum 7)])\<rparr>"
      "\<lparr>requests = [], notices = []\<rparr>"
      "\<lparr>baseUrl = Some ''https://forum.example'', userApiKey = Some ''key''\<rparr>"
      "''Title''" "''Body''" 3 "Some [''a'']"
      "\<lparr>status = 200, json = Inr (JObj [(''id'', JNum 41), (''topic_id'', JNum 7)])\<rparr>" "\<lambda>k. k" "\<lambda>s. False"]
  by simp

text \<open>
  The claim as written asks for a numeric \<^verbatim>\<open>id\<close>: a 200 response with
  \<^verbatim>\<open>{"id": 0, "topic_id": 7}\<close> has one, and createPost reports failure.
\<close>

theorem createPost_numeric_id_counterexample:
  "get_prop (JObj [(''id'', JNum 0), (''topic_id'', JNum 7)]) ''id'' = Ret (Some (JNum 0))
   \<and> fst (createPost (\<lambda>k. k) (\<lambda>s. False)
          (\<lambda>h rq. Inr \<lparr>status = 200, json = Inr (JObj [(''id'', JNum 0), (''topic_id'', JNum 7)])\<rparr>)
          \<lparr>baseUrl = Some ''https://forum.example'', userApiKey = Some ''key''\<rparr>
          ''Title'' ''Body'' 3 (Some [''a'']) \<lparr>requests = [], notices = []\<rparr>)
     = Ret \<lparr>success = False, error = Some (JStr ''POST_ID_ERROR''), postId = None, topicId = None\<rparr>"
  by (simp add: createPost_def io_defs run_defs created_def create_failed_def truthy_val_def)

subsection \<open>The error message of a failed createPost\<close>

text \<open>
  C6, as amended. For every response with a status other than 200: when the body is an
  object whose \<^verbatim>\<open>errors\<close> is a non-empty array of elements that have a text,
  the error is that array joined with newlines; when \<^verbatim>\<open>errors\<close> is missing,
  falsy or without a positive length (an empty array, say) and the body has a truthy
  \<^verbatim>\<open>error\<close> field (a non-empty string), that value is the error; in every other
  case (the body cannot be parsed or is not an object, \<^verbatim>\<open>errors\<close> has a
  positive length but is not an array, an element of it has no text, or there is no
  truthy \<^verbatim>\<open>error\<close>) the error is the publish-failed message with the status.
  An exception thrown by the request gives the publish-failed message with the
  exception's message, or the unknown-error text when the message is missing or empty.
\<close>

theorem createPost_error_priority:
  "(\<forall>r. net (requests w) (createPost_request st title content category tgs) = Inr r \<and> status r \<noteq> 200 \<longrightarrow>
      (\<forall>kvs es ss. json r = Inr (JObj kvs) \<and> map_of kvs ''errors'' = Some (JArr es) \<and> es \<noteq> []
                   \<and> elem_strs es = Ret ss
         \<longrightarrow> fst (createPost t gt0 net st title content category tgs w)
              = Ret (create_failed (JStr (join_with [CHR 0x0A] ss))))
    \<and> (\<forall>kvs e. json r = Inr (JObj kvs) \<and> no_positive_length gt0 (map_of kvs ''errors'')
                \<and> map_of kvs ''error'' = Some e \<and> truthy e
         \<longrightarrow> fst (createPost t gt0 net st title content category tgs w) = Ret (create_failed e))
    \<and> (\<not> (\<exists>kvs es ss. json r = Inr (JObj kvs) \<and> map_of kvs ''errors'' = Some (JArr es) \<and> es \<noteq> []
                        \<and> elem_strs es = Ret ss)
        \<and> \<not> (\<exists>kvs e. json r = Inr (JObj kvs) \<and> no_positive_length gt0 (map_of kvs ''errors'')
                      \<and> map_of kvs ''error'' = Some e \<and> truthy e)
         \<longrightarrow> fst (createPost t gt0 net st title content category tgs w)
              = Ret (create_failed (JStr (t ''PUBLISH_FAILED'' @ '' ('' @ num_str (status r) @ '')'')))))
   \<and> (\<forall>m. net (requests w) (createPost_request st title content category tgs) = Inl (HostError m)
        \<longrightarrow> fst (createPost t gt0 net st title content category tgs w)
             = Ret (create_failed (JStr (t ''PUBLISH_FAILED'' @ '': ''
                      @ (case m of Some s \<Rightarrow> if s \<noteq> [] then s else t ''UNKNOWN_ERROR''
                                 | None \<Rightarrow> t ''UNKNOWN_ERROR'')))))"
proof (intro conjI allI impI)
  fix r kvs es ss
  assume a: "net (requests w) (createPost_request st title content category tgs) = Inr r \<and> status r \<noteq> 200"
     and b: "json r = Inr (JObj kvs) \<and> map_of kvs ''errors'' = Some (JArr es) \<and> es \<noteq> []
                   \<and> elem_strs es = Ret ss"
  from b have "error_of_body gt0 r = Ret (Some (JStr (join_with [CHR 0x0A] ss)))"
    by (simp add: error_of_body_joined)
  with a show "fst (createPost t gt0 net st title content category tgs w)
              = Ret (create_failed (JStr (join_with [CHR 0x0A] ss)))"
    by (simp add: createPost_non200 failure_of_response_def run_defs)
next
  fix r kvs e
  assume a: "net (requests w) (createPost_request st title content category tgs) = Inr r \<and> status r \<noteq> 200"
     and b: "json r = Inr (JObj kvs) \<and> no_positive_length gt0 (map_of kvs ''errors'')
                \<and> map_of kvs ''error'' = Some e \<and> truthy e"
  from b have "error_of_body gt0 r = Ret (Some e)"
    by (simp add: error_of_body_single truthy_val_def)
  with a show "fst (createPost t gt0 net st title content category tgs w) = Ret (create_failed e)"
    by (simp add: createPost_non200 failure_of_response_def run_defs)
next
  fix r
  assume a: "net (requests w) (createPost_request st title content category tgs) = Inr r \<and> status r \<noteq> 200"
     and b: "\<not> (\<exists>kvs es ss. json r = Inr (JObj kvs) \<and> map_of kvs ''errors'' = Some (JArr es) \<and> es \<noteq> []
                        \<and> elem_strs es = Ret ss)
        \<and> \<not> (\<exists>kvs e. json r = Inr (JObj kvs) \<and> no_positive_length gt0 (map_of kvs ''errors'')
                      \<and> map_of kvs ''error'' = Some e \<and> truthy e)"
  have "(\<exists>e. error_of_body gt0 r = Throw e) \<or> error_of_body gt0 r = Ret None"
  proof (cases "json r")
    case (Inl h)
    then show ?thesis by (simp add: error_of_body_def run_defs)
  next
    case (Inr d)
    show ?thesis
    proof (cases "\<exists>kvs. d = JObj kvs")
      case False
      with Inr show ?thesis using error_of_body_not_object [of r d gt0] by blast
    next
      case True
      then obtain kvs where d: "d = JObj kvs" by blast
      show ?thesis
      proof (cases "no_positive_length gt0 (map_of kvs ''errors'')")
        case True
        with b Inr d have "\<not> truthy_val (map_of kvs ''error'')"
          by (auto simp add: truthy_val_def split: option.splits)
        with True Inr d show ?thesis by (simp add: error_of_body_single)
      next
        case False
        then obtain es where es: "map_of kvs ''errors'' = Some es" "truthy es"
            "length_gt0 gt0 es \<noteq> Ret False"
          by (auto simp add: no_positive_length_def split: option.splits)
        have "\<forall>xs ss. es = JArr xs \<longrightarrow> elem_strs xs \<noteq> Ret ss"
        proof (intro allI impI)
          fix xs ss assume xs: "es = JArr xs"
          with es(3) have "xs \<noteq> []" by (auto simp add: length_gt0_def)
          with b Inr d es(1) xs show "elem_strs xs \<noteq> Ret ss" by blast
        qed
        with Inr d es show ?thesis using error_of_body_positive [of r kvs es gt0] by blast
      qed
    qed
  qed
  then have "failure_of_response gt0 (t ''PUBLISH_FAILED'') r
             = Ret (status_message (t ''PUBLISH_FAILED'') (status r))"
    by (rule generic_of_throw_or_none)
  with a show "fst (createPost t gt0 net st title content category tgs w)
              = Ret (create_failed (JStr (t ''PUBLISH_FAILED'' @ '' ('' @ num_str (status r) @ '')'')))"
    by (simp add: createPost_non200 bnd_def status_message_def)
next
  fix m
  assume "net (requests w) (createPost_request st title content category tgs) = Inl (HostError m)"
  then show "fst (createPost t gt0 net st title content category tgs w)
             = Ret (create_failed (JStr (t ''PUBLISH_FAILED'' @ '': ''
                      @ (case m of Some s \<Rightarrow> if s \<noteq> [] then s else t ''UNKNOWN_ERROR''
                                 | None \<Rightarrow> t ''UNKNOWN_ERROR''))))"
    by (simp add: createPost_def io_defs run_defs caught_message_def message_or_def truthy_str_def
          tmpl_str_def split: option.splits)
qed

theorem createPost_error_priority_witness:
  "fst (createPost (\<lambda>k. k) (\<lambda>s. False)
          (\<lambda>h rq. Inr \<lparr>status = 422,
             json = Inr (JObj [(''errors'', JArr [JStr ''Title is too short'', JStr ''Body is too short''])])\<rparr>)
          \<lparr>baseUrl = Some ''https://forum.example'', userApiKey = Some ''key''\<rparr>
          ''Title'' ''Body'' 3 (Some [''a'']) \<lparr>requests = [], notices = []\<rparr>)
   = Ret \<lparr>success = False,
          error = Some (JStr (''Title is too short'' @ [CHR 0x0A] @ ''Body is too short'')),
          postId = None, topicId = None\<rparr>"
  using createPost_error_priority [of
      "\<lambda>h rq. Inr \<lparr>status = 422,
             json = Inr (JObj [(''errors'', JArr [JStr ''Title is too short'', JStr ''Body is too short''])])\<rparr>"
      "\<lparr>requests = [], notices = []\<rparr>"
      "\<lparr>baseUrl = Some ''https://forum.example'', userApiKey = Some ''key''\<rparr>"
      "''Title''" "''Body''" 3 "Some [''a'']" "\<lambda>k. k" "\<lambda>s. False"]
  by (simp add: create_failed_def bnd_def)

text \<open>
  The claim as written reports any \<^verbatim>\<open>error\<close> string: for the body
  \<^verbatim>\<open>{"error": ""}\<close> with status 422 the message is the generic one.
\<close>

theorem createPost_empty_error_counterexample:
  "get_prop (JObj [(''error'', JStr [])]) ''errors'' = Ret None
   \<and> get_prop (JObj [(''error'', JStr [])]) ''error'' = Ret (Some (JStr []))
   \<and> fst (createPost (\<lambda>k. k) (\<lambda>s. False)
          (\<lambda>h rq. Inr \<lparr>status = 422, json = Inr (JObj [(''error'', JStr [])])\<rparr>)
          \<lparr>baseUrl = Some ''https://forum.example'', userApiKey = Some ''key''\<rparr>
          ''Title'' ''Body'' 3 (Some [''a'']) \<lparr>requests = [], notices = []\<rparr>)
     = Ret \<lparr>success = False, error = Some (JStr ''PUBLISH_FAILED (422)''), postId = None, topicId = None\<rparr>"
  by (simp add: createPost_def io_defs run_defs failure_of_response_def error_of_body_def
        single_error_def create_failed_def truthy_val_def status_message_def num_str_422)

text \<open>
  Three bodies of the last case and of the second, whatever \<open>gt0\<close> is: a text for
  \<^verbatim>\<open>errors\<close> (no \<^verbatim>\<open>join\<close>), a number for \<^verbatim>\<open>errors\<close> (no
  length, so \<^verbatim>\<open>error\<close> is read), and an element that shadows
  \<^verbatim>\<open>toString\<close>.
\<close>

lemma createPost_errors_text:
  "fst (createPost (\<lambda>k. k) gt0
          (\<lambda>h rq. Inr \<lparr>status = 422,
             json = Inr (JObj [(''errors'', JStr ''bad title''), (''error'', JStr ''single'')])\<rparr>)
          \<lparr>baseUrl = Some ''https://forum.example'', userApiKey = Some ''key''\<rparr>
          ''Title'' ''Body'' 3 (Some [''a'']) \<lparr>requests = [], notices = []\<rparr>)
     = Ret \<lparr>success = False, error = Some (JStr ''PUBLISH_FAILED (422)''), postId = None, topicId = None\<rparr>"
  by (simp add: createPost_def io_defs run_defs failure_of_response_def error_of_body_def
        length_gt0_def js_join_def create_failed_def status_message_def num_str_422)

lemma createPost_errors_number:
  "fst (createPost (\<lambda>k. k) gt0
          (\<lambda>h rq. Inr \<lparr>status = 422,
             json = Inr (JObj [(''errors'', JNum 5), (''error'', JStr ''single'')])\<rparr>)
          \<lparr>baseUrl = Some ''https://forum.example'', userApiKey = Some ''key''\<rparr>
          ''Title'' ''Body'' 3 (Some [''a'']) \<lparr>requests = [], notices = []\<rparr>)
     = Ret \<lparr>success = False, error = Some (JStr ''single''), postId = None, topicId = None\<rparr>"
  by (simp add: createPost_def io_defs run_defs failure_of_response_def error_of_body_def
        length_gt0_def single_error_def truthy_val_def create_failed_def)

lemma createPost_errors_no_text:
  "fst (createPost (\<lambda>k. k) gt0
          (\<lambda>h rq. Inr \<lparr>status = 422,
             json = Inr (JObj [(''errors'', JArr [JObj [(''toString'', JNum 1)]]), (''error'', JStr ''single'')])\<rparr>)
          \<lparr>baseUrl = Some ''https://forum.example'', userApiKey = Some ''key''\<rparr>
          ''Title'' ''Body'' 3 (Some [''a'']) \<lparr>requests = [], notices = []\<rparr>)
     = Ret \<lparr>success = False, error = Some (JStr ''PUBLISH_FAILED (422)''), postId = None, topicId = None\<rparr>"
  by (simp add: createPost_def io_defs run_defs failure_of_response_def error_of_body_def
        length_gt0_def js_join_def create_failed_def status_message_def num_str_422)

subsection \<open>The full URL of an upload\<close>

text \<open>
  What the code does with a 200 upload response whose body is an object. A
  \<^verbatim>\<open>url\<close> that starts with \<^verbatim>\<open>http://\<close> or \<^verbatim>\<open>https://\<close> is the
  full URL as it is. Any other non-empty \<^verbatim>\<open>url\<close> text is put after the base URL,
  from which one trailing slash is removed, with a slash before the path when it has
  none: where the base does not end with two slashes and the path does not start with
  two, this is the join with exactly one slash. Without a truthy \<^verbatim>\<open>url\<close> there
  is no full URL.
\<close>

lemma uploadImage_joins:
  assumes "vault file = Inr bytes"
      and "net (requests w) (upload_request st file bytes (genBoundary rnd)) = Inr r"
      and "status r = 200" and "json r = Inr (JObj kvs)"
  shows "(\<forall>u. map_of kvs ''url'' = Some (JStr u) \<and> (startsWith u ''http://'' \<or> startsWith u ''https://'')
           \<longrightarrow> fst (uploadImage vault rnd net st file w)
                = Ret (Some \<lparr>shortUrl = map_of kvs ''short_url'', fullUrl = Some (JStr u)\<rparr>))
       \<and> (\<forall>u b. map_of kvs ''url'' = Some (JStr u) \<and> u \<noteq> []
                \<and> \<not> startsWith u ''http://'' \<and> \<not> startsWith u ''https://'' \<and> baseUrl st = Some b
           \<longrightarrow> fst (uploadImage vault rnd net st file w)
                = Ret (Some \<lparr>shortUrl = map_of kvs ''short_url'',
                             fullUrl = Some (JStr ((if b \<noteq> [] \<and> last b = CHR ''/'' then butlast b else b)
                                                   @ (if startsWith u ''/'' then u else ''/'' @ u)))\<rparr>)
              \<and> (\<not> startsWith (rev b) ''//'' \<and> \<not> startsWith u ''//''
                  \<longrightarrow> (if b \<noteq> [] \<and> last b = CHR ''/'' then butlast b else b)
                        @ (if startsWith u ''/'' then u else ''/'' @ u)
                      = one_slash_join b u))
       \<and> (\<not> truthy_val (map_of kvs ''url'')
           \<longrightarrow> fst (uploadImage vault rnd net st file w)
                = Ret (Some \<lparr>shortUrl = map_of kvs ''short_url'', fullUrl = None\<rparr>))"
proof (intro conjI allI impI)
  fix u
  assume "map_of kvs ''url'' = Some (JStr u) \<and> (startsWith u ''http://'' \<or> startsWith u ''https://'')"
  then have "uploaded st (JObj kvs)
             = Ret (Some \<lparr>shortUrl = map_of kvs ''short_url'', fullUrl = Some (JStr u)\<rparr>)"
    by (auto simp add: uploaded_def full_url_def run_defs startsWith_def)
  with assms show "fst (uploadImage vault rnd net st file w)
                = Ret (Some \<lparr>shortUrl = map_of kvs ''short_url'', fullUrl = Some (JStr u)\<rparr>)"
    by (rule uploadImage_200)
next
  fix u b
  assume "map_of kvs ''url'' = Some (JStr u) \<and> u \<noteq> []
                \<and> \<not> startsWith u ''http://'' \<and> \<not> startsWith u ''https://'' \<and> baseUrl st = Some b"
  then have "uploaded st (JObj kvs)
             = Ret (Some \<lparr>shortUrl = map_of kvs ''short_url'',
                             fullUrl = Some (JStr ((if b \<noteq> [] \<and> last b = CHR ''/'' then butlast b else b)
                                                   @ (if startsWith u ''/'' then u else ''/'' @ u)))\<rparr>)"
    by (simp add: uploaded_def full_url_def run_defs strip_slash_def)
  with assms show "fst (uploadImage vault rnd net st file w)
                = Ret (Some \<lparr>shortUrl = map_of kvs ''short_url'',
                             fullUrl = Some (JStr ((if b \<noteq> [] \<and> last b = CHR ''/'' then butlast b else b)
                                                   @ (if startsWith u ''/'' then u else ''/'' @ u)))\<rparr>)"
    by (rule uploadImage_200)
next
  fix u b
  assume a: "map_of kvs ''url'' = Some (JStr u) \<and> u \<noteq> []
                \<and> \<not> startsWith u ''http://'' \<and> \<not> startsWith u ''https://'' \<and> baseUrl st = Some b"
     and c: "\<not> startsWith (rev b) ''//'' \<and> \<not> startsWith u ''//''"
  from c have "rev (dropWhile (\<lambda>c. c = CHR ''/'') (rev b)) = strip_slash b"
    by (simp add: strip_slash_once)
  moreover have "''/'' @ dropWhile (\<lambda>c. c = CHR ''/'') u = (if startsWith u ''/'' then u else ''/'' @ u)"
    by (rule lead_slash_once) (use a c in simp_all)
  ultimately show "(if b \<noteq> [] \<and> last b = CHR ''/'' then butlast b else b)
                        @ (if startsWith u ''/'' then u else ''/'' @ u)
                      = one_slash_join b u"
    by (simp only: one_slash_join_def strip_slash_def)
next
  assume "\<not> truthy_val (map_of kvs ''url'')"
  then have "uploaded st (JObj kvs)
             = Ret (Some \<lparr>shortUrl = map_of kvs ''short_url'', fullUrl = None\<rparr>)"
    by (auto simp add: uploaded_def full_url_def run_defs truthy_val_def split: option.splits)
  with assms show "fst (uploadImage vault rnd net st file w)
                = Ret (Some \<lparr>shortUrl = map_of kvs ''short_url'', fullUrl = None\<rparr>)"
    by (rule uploadImage_200)
qed

text \<open>
  C3. The claim asks for exactly one slash where the base URL and the path meet,
  whatever the two ends look like, and the code sets out to do that (its comments: join
  a relative path with the base URL, remove the trailing slash). It misses a path that
  starts with two slashes: for the base \<^verbatim>\<open>https://forum.example/\<close> and the
  protocol-relative path \<^verbatim>\<open>//cdn.example/a.png\<close> the full URL it returns has two
  slashes at the join, where the join with one slash is
  \<^verbatim>\<open>https://forum.example/cdn.example/a.png\<close>.
\<close>

theorem uploadImage_double_slash:
  "fst (uploadImage (\<lambda>f. Inr ''PNG'') ''1f3a''
          (\<lambda>h rq. Inr \<lparr>status = 200,
             json = Inr (JObj [(''short_url'', JStr ''upload://a.png''), (''url'', JStr ''//cdn.example/a.png'')])\<rparr>)
          \<lparr>baseUrl = Some ''https://forum.example/'', userApiKey = Some ''key''\<rparr>
          \<lparr>name = ''a.png'', extension = ''png''\<rparr> \<lparr>requests = [], notices = []\<rparr>)
   = Ret (Some \<lparr>shortUrl = Some (JStr ''upload://a.png''),
                fullUrl = Some (JStr ''https://forum.example//cdn.example/a.png'')\<rparr>)
   \<and> one_slash_join ''https://forum.example/'' ''//cdn.example/a.png''
     = ''https://forum.example/cdn.example/a.png''"
  by (simp add: uploadImage_def io_defs run_defs uploaded_def full_url_def startsWith_def
        strip_slash_def one_slash_join_def)

lemma map_of_map_set: "map_of (map_set k c m) k' = (if k' = k then Some c else map_of m k')"
  by (induction m) auto

lemma keys_map_set:
  "map fst (map_set k c m) = (if k \<in> set (map fst m) then map fst m else map fst m @ [k])"
  by (induction m) (force+)

lemma distinct_map_set: "distinct (map fst m) \<Longrightarrow> distinct (map fst (map_set k c m))"
  by (simp add: keys_map_set)

lemma map_of_set_entry:
  "map_of (set_entry m e) n = (if fst e = n then Some (snd e) else map_of m n)"
  by (auto simp add: set_entry_def map_of_map_set)

lemma map_of_merge_entry:
  "map_of (merge_entry m e) n =
     (if fst e = n then Some (case map_of m n of Some c0 \<Rightarrow> max c0 (snd e) | None \<Rightarrow> snd e)
      else map_of m n)"
  by (auto simp add: merge_entry_def map_of_map_set split: option.splits)

lemma map_of_set_entries:
  "map_of (foldl set_entry m es) n =
     (case counts n es of [] \<Rightarrow> map_of m n | c # cs \<Rightarrow> Some (last (c # cs)))"
proof (induction es arbitrary: m)
  case Nil
  then show ?case by (simp add: counts_def)
next
  case (Cons e es)
  show ?case
    by (cases "fst e = n")
       (simp_all add: Cons.IH counts_def map_of_set_entry split: list.splits)
qed

lemma map_of_merge_entries:
  "map_of (foldl merge_entry m es) n =
     (case counts n es of
        [] \<Rightarrow> map_of m n
      | c # cs \<Rightarrow> Some (foldl max (case map_of m n of Some c0 \<Rightarrow> max c0 c | None \<Rightarrow> c) cs))"
proof (induction es arbitrary: m)
  case Nil
  then show ?case by (simp add: counts_def)
next
  case (Cons e es)
  show ?case
    by (cases "fst e = n")
       (simp_all add: Cons.IH counts_def map_of_merge_entry split: list.splits)
qed

lemma merged_two_counts:
  assumes "counts n tops = [c1]" and "counts n grps = [c2]"
  shows "map_of (foldl merge_entry (foldl set_entry [] tops) grps) n = Some (max c1 c2)"
  using assms by (simp add: map_of_merge_entries map_of_set_entries)

lemma map_key_shaped:
  "(case n of Some (JArr xs) \<Rightarrow> False | Some (JObj kvs) \<Rightarrow> False | _ \<Rightarrow> True) \<Longrightarrow> map_key n = Ret n"
  by (auto simp add: map_key_def split: option.splits json.splits)

lemma count_or_0_shaped:
  "(case c of Some (JStr s) \<Rightarrow> s = [] | Some (JArr xs) \<Rightarrow> False | Some (JObj kvs) \<Rightarrow> False | _ \<Rightarrow> True)
   \<Longrightarrow> count_or_0 c = Ret (count_num c)"
  by (auto simp add: count_or_0_def count_num_def split: option.splits json.splits)

lemma set_tag_shaped: "shaped_tag tg \<Longrightarrow> set_tag tg m = Ret (set_entry m (entry tg))"
  by (simp add: shaped_tag_def set_tag_def get_prop_field map_key_shaped count_or_0_shaped bnd_def
        set_entry_def entry_def)

lemma merge_tag_shaped: "shaped_tag tg \<Longrightarrow> merge_tag tg m = Ret (merge_entry m (entry tg))"
  by (simp add: shaped_tag_def merge_tag_def get_prop_field map_key_shaped count_or_0_shaped bnd_def
        merge_entry_def entry_def split: option.splits)

lemma forEach_foldl:
  assumes "\<And>x s. x \<in> set xs \<Longrightarrow> f x s = Ret (g s x)"
  shows "forEach f xs s = Ret (foldl g s xs)"
  using assms by (induction xs arbitrary: s) (simp_all add: bnd_def)

lemma forEach_set_tag:
  "list_all shaped_tag ts \<Longrightarrow> forEach set_tag ts m = Ret (foldl set_entry m (map entry ts))"
  by (simp add: forEach_foldl [where g = "\<lambda>s x. set_entry s (entry x)"] set_tag_shaped
        list_all_iff foldl_map)

lemma forEach_merge_tag:
  "list_all shaped_tag ts \<Longrightarrow> forEach merge_tag ts m = Ret (foldl merge_entry m (map entry ts))"
  by (simp add: forEach_foldl [where g = "\<lambda>s x. merge_entry s (entry x)"] merge_tag_shaped
        list_all_iff foldl_map)

lemma merge_group_shaped:
  assumes "shaped_group grp"
  shows "merge_group grp m = Ret (foldl merge_entry m (map entry (group_tags grp)))"
proof (cases "field grp ''tags''")
  case None
  with assms show ?thesis
    by (simp add: shaped_group_def merge_group_def get_prop_field run_defs group_tags_def)
next
  case (Some l)
  with assms show ?thesis
    by (cases l)
       (simp_all add: shaped_group_def merge_group_def get_prop_field run_defs group_tags_def
          js_forEach_def forEach_merge_tag)
qed

lemma foldl_groups:
  "foldl (\<lambda>s x. foldl merge_entry s (map entry (group_tags x))) m gs
   = foldl merge_entry m (map entry (concat (map group_tags gs)))"
  by (induction gs arbitrary: m) simp_all

lemma forEach_merge_group:
  "list_all shaped_group gs
   \<Longrightarrow> forEach merge_group gs m = Ret (foldl merge_entry m (map entry (concat (map group_tags gs))))"
  by (simp add: forEach_foldl [where g = "\<lambda>s x. foldl merge_entry s (map entry (group_tags x))"]
        merge_group_shaped list_all_iff foldl_groups)

lemma all_tags_shaped:
  assumes "data \<noteq> JNull" and "shaped_tags data tops"
  shows "all_tags data (JArr tops) = Ret (merged_tags data tops)"
proof -
  from assms have tops: "js_forEach (JArr tops) set_tag [] = Ret (foldl set_entry [] (top_entries tops))"
    by (simp add: shaped_tags_def js_forEach_def forEach_set_tag top_entries_def)
  show ?thesis
  proof (cases "field data ''extras''")
    case None
    with assms tops show ?thesis
      by (simp add: all_tags_def get_prop_field run_defs merged_tags_def group_entries_def
            tag_groups_def)
  next
    case ex: (Some ex)
    show ?thesis
    proof (cases "truthy ex")
      case False
      then have "field ex ''tag_groups'' = None" by (cases ex) (simp_all add: field_def)
      with assms tops ex False show ?thesis
        by (simp add: all_tags_def get_prop_field run_defs merged_tags_def group_entries_def
              tag_groups_def)
    next
      case True
      then have nn: "ex \<noteq> JNull" by auto
      show ?thesis
      proof (cases "field ex ''tag_groups''")
        case None
        with assms tops ex True nn show ?thesis
          by (simp add: all_tags_def get_prop_field run_defs merged_tags_def group_entries_def
                tag_groups_def)
      next
        case (Some gs)
        with assms tops ex True nn show ?thesis
          by (cases gs)
             (simp_all add: all_tags_def get_prop_field run_defs merged_tags_def group_entries_def
                tag_groups_def shaped_tags_def js_forEach_def forEach_merge_group)
      qed
    qed
  qed
qed

lemma forEach_distinct:
  assumes "\<And>x s s'. distinct (map fst s) \<Longrightarrow> f x s = Ret s' \<Longrightarrow> distinct (map fst s')"
  shows "distinct (map fst s) \<Longrightarrow> forEach f xs s = Ret s' \<Longrightarrow> distinct (map fst s')"
proof (induction xs arbitrary: s)
  case Nil
  then show ?case by simp
next
  case (Cons x xs)
  from Cons.prems(2) obtain s1 where s1: "f x s = Ret s1" and rest: "forEach f xs s1 = Ret s'"
    by (auto simp add: bnd_def split: run.splits)
  from Cons.prems(1) s1 have "distinct (map fst s1)" by (rule assms)
  then show ?case using rest by (rule Cons.IH)
qed

lemma js_forEach_distinct:
  assumes "\<And>x s s'. distinct (map fst s) \<Longrightarrow> f x s = Ret s' \<Longrightarrow> distinct (map fst s')"
      and "distinct (map fst s)" and "js_forEach l f s = Ret s'"
  shows "distinct (map fst s')"
proof (cases l)
  case (JArr xs)
  with assms(3) have "forEach f xs s = Ret s'" by (simp add: js_forEach_def)
  with assms(1,2) show ?thesis by (rule forEach_distinct)
qed (use assms(3) in \<open>simp_all add: js_forEach_def\<close>)

lemma set_tag_distinct:
  "distinct (map fst m) \<Longrightarrow> set_tag tg m = Ret m' \<Longrightarrow> distinct (map fst m')"
  by (auto simp add: set_tag_def bnd_def distinct_map_set split: run.splits)

lemma merge_tag_distinct:
  "distinct (map fst m) \<Longrightarrow> merge_tag tg m = Ret m' \<Longrightarrow> distinct (map fst m')"
  by (auto simp add: merge_tag_def bnd_def distinct_map_set split: run.splits option.splits)

lemma merge_group_distinct:
  assumes "distinct (map fst m)" and "merge_group grp m = Ret m'"
  shows "distinct (map fst m')"
proof -
  from assms(2) have "m' = m \<or> (\<exists>l. js_forEach l merge_tag m = Ret m')"
    by (auto simp add: merge_group_def run_defs split: run.splits option.splits if_splits)
  then show ?thesis
  proof
    assume "m' = m"
    with assms(1) show ?thesis by simp
  next
    assume "\<exists>l. js_forEach l merge_tag m = Ret m'"
    then obtain l where "js_forEach l merge_tag m = Ret m'" by blast
    with merge_tag_distinct assms(1) show ?thesis by (rule js_forEach_distinct)
  qed
qed

lemma all_tags_distinct:
  assumes "all_tags data tj = Ret m"
  shows "distinct (map fst m)"
proof -
  from assms obtain m1 where m1: "js_forEach tj set_tag [] = Ret m1"
    by (auto simp add: all_tags_def bnd_def split: run.splits)
  have "distinct (map fst ([] :: tag_map))" by simp
  with set_tag_distinct have d1: "distinct (map fst m1)" using m1 by (rule js_forEach_distinct)
  from assms m1 have "m = m1 \<or> (\<exists>gs. js_forEach gs merge_group m1 = Ret m)"
    by (auto simp add: all_tags_def run_defs split: run.splits option.splits if_splits)
  then show ?thesis
  proof
    assume "m = m1"
    with d1 show ?thesis by simp
  next
    assume "\<exists>gs. js_forEach gs merge_group m1 = Ret m"
    then obtain gs where "js_forEach gs merge_group m1 = Ret m" by blast
    with merge_group_distinct d1 show ?thesis by (rule js_forEach_distinct)
  qed
qed

lemma distinct_insort_fst:
  "distinct (map fst (insort_key f x xs)) = (fst x \<notin> fst ` set xs \<and> distinct (map fst xs))"
  by (induction xs) (auto simp add: set_insort_key)

lemma distinct_sort_fst: "distinct (map fst (sort_key f xs)) = distinct (map fst xs)"
  by (induction xs) (simp_all add: distinct_insort_fst)

lemma names_sorted_tags: "map name (sorted_tags cc m) = map fst (sort_key (\<lambda>e. - snd e) m)"
  by (simp add: sorted_tags_def)

lemma checkCanCreateTags_returns: "\<exists>v w'. checkCanCreateTags net st w = (Ret v, w')"
proof (cases "net (requests w) (get_request st ''/site.json'')")
  case (Inl e)
  then show ?thesis by (simp add: checkCanCreateTags_def io_defs)
next
  case (Inr r)
  show ?thesis
  proof (cases "json r")
    case (Inl e)
    with Inr show ?thesis by (simp add: checkCanCreateTags_def io_defs run_defs)
  next
    case body: (Inr data)
    with Inr show ?thesis
      by (cases data) (auto simp add: checkCanCreateTags_def io_defs run_defs split: option.splits)
  qed
qed

lemma fetchTags_with_tags:
  assumes "net (requests w) (get_request st ''/tags.json'') = Inr r"
      and "status r = 200" and "json r = Inr data" and "field data ''tags'' = Some tj" and "truthy tj"
  shows "\<exists>cc. fst (fetchTags net st w) = bnd (all_tags data tj) (\<lambda>m. Ret (sorted_tags cc m))
              \<or> (\<exists>e. all_tags data tj = Throw e \<and> fst (fetchTags net st w) = Ret [])"
proof -
  from assms(4) have nn: "data \<noteq> JNull" and tr: "truthy data" by (cases data; simp add: field_def)+
  obtain v w' where cc: "checkCanCreateTags net st (w\<lparr>requests := requests w @ [get_request st ''/tags.json'']\<rparr>) = (Ret v, w')"
    using checkCanCreateTags_returns by blast
  show ?thesis
  proof (cases "all_tags data tj")
    case (Ret m)
    with assms nn tr cc have "fst (fetchTags net st w) = bnd (all_tags data tj) (\<lambda>m. Ret (sorted_tags v m))"
      by (simp add: fetchTags_def io_defs run_defs get_prop_field)
    then show ?thesis by blast
  next
    case (Throw e)
    with assms nn tr cc have "fst (fetchTags net st w) = Ret []"
      by (simp add: fetchTags_def io_defs run_defs get_prop_field)
    with Throw show ?thesis by blast
  next
    case Unmodelled
    with assms nn tr cc have "fst (fetchTags net st w) = bnd (all_tags data tj) (\<lambda>m. Ret (sorted_tags v m))"
      by (simp add: fetchTags_def io_defs run_defs get_prop_field)
    then show ?thesis by blast
  qed
qed

lemma fetchTags_without_tags:
  assumes "\<not> (\<exists>r data tj. net (requests w) (get_request st ''/tags.json'') = Inr r
              \<and> status r = 200 \<and> json r = Inr data \<and> field data ''tags'' = Some tj \<and> truthy tj)"
  shows "fst (fetchTags net st w) = Ret []"
proof (cases "net (requests w) (get_request st ''/tags.json'')")
  case (Inl e)
  then show ?thesis by (simp add: fetchTags_def io_defs)
next
  case (Inr r)
  show ?thesis
  proof (cases "status r = 200")
    case False
    with Inr show ?thesis by (simp add: fetchTags_def io_defs)
  next
    case True
    show ?thesis
    proof (cases "json r")
      case (Inl e)
      with Inr True show ?thesis by (simp add: fetchTags_def io_defs run_defs)
    next
      case body: (Inr data)
      with assms Inr True have "\<forall>tj. field data ''tags'' = Some tj \<longrightarrow> \<not> truthy tj" by blast
      with Inr True body show ?thesis
        by (cases data)
           (auto simp add: fetchTags_def io_defs run_defs field_def split: option.splits)
    qed
  qed
qed

lemma fetchTags_distinct:
  assumes "fst (fetchTags net st w) = Ret tgs"
  shows "distinct (map name tgs)"
proof (cases "\<exists>r data tj. net (requests w) (get_request st ''/tags.json'') = Inr r
              \<and> status r = 200 \<and> json r = Inr data \<and> field data ''tags'' = Some tj \<and> truthy tj")
  case False
  then have "fst (fetchTags net st w) = Ret []" by (rule fetchTags_without_tags)
  with assms show ?thesis by simp
next
  case True
  then obtain r data tj where a: "net (requests w) (get_request st ''/tags.json'') = Inr r"
      "status r = 200" "json r = Inr data" "field data ''tags'' = Some tj" "truthy tj"
    by blast
  from a fetchTags_with_tags [of net w st r data tj] obtain cc where
    "fst (fetchTags net st w) = bnd (all_tags data tj) (\<lambda>m. Ret (sorted_tags cc m))
       \<or> (\<exists>e. all_tags data tj = Throw e \<and> fst (fetchTags net st w) = Ret [])"
    by blast
  with assms have "tgs = [] \<or> (\<exists>m. all_tags data tj = Ret m \<and> tgs = sorted_tags cc m)"
    by (auto simp add: bnd_def split: run.splits)
  then show ?thesis
    by (auto simp add: names_sorted_tags distinct_sort_fst all_tags_distinct)
qed

subsection \<open>fetchCategories flattens two levels\<close>

text \<open>
  C5. For a 200 categories response whose \<^verbatim>\<open>category_list.categories\<close> is an
  array of categories (with names that have a text, as every string has),
  fetchCategories returns the categories in the order of the response, each followed at
  once by its own subcategories in their order; a subcategory's name is
  \<^verbatim>\<open>{parent name} > {child name}\<close>, and a category with two subcategories gives
  exactly the three entries parent, first child, second child.
\<close>

theorem fetchCategories_flattens:
  assumes "net (requests w) (get_request st ''/categories.json?include_subcategories=true'') = Inr r"
      and "status r = 200"
      and "json r = Inr data"
      and "field data ''category_list'' = Some cl"
      and "field cl ''categories'' = Some (JArr cats)"
      and "\<forall>c \<in> set cats. shaped_category c"
  shows "fst (fetchCategories net st w) = Ret (concat (map flattened cats))
       \<and> (\<forall>c s1 s2. subcategories c = [s1, s2] \<longrightarrow>
            flattened c =
              [\<lparr>name = field c ''name'', id' = field c ''id''\<rparr>,
               \<lparr>name = Some (JStr (text_of (field c ''name'') @ '' > '' @ text_of (field s1 ''name''))),
                id' = field s1 ''id''\<rparr>,
               \<lparr>name = Some (JStr (text_of (field c ''name'') @ '' > '' @ text_of (field s2 ''name''))),
                id' = field s2 ''id''\<rparr>])
       \<and> (\<forall>s. text_of (Some (JStr s)) = s)"
proof -
  from assms(4) obtain kvs where d: "data = JObj kvs" by (cases data) (simp_all add: field_def)
  from assms(5) obtain kvs' where c: "cl = JObj kvs'" by (cases cl) (simp_all add: field_def)
  from assms(4,5) d c have "categories_of data = js_forEach (JArr cats) push_category []"
    by (simp add: categories_of_def run_defs field_def)
  with assms(6) have "categories_of data = Ret (concat (map flattened cats))"
    by (simp add: js_forEach_def forEach_push_category)
  with assms(1-3) have "fst (fetchCategories net st w) = Ret (concat (map flattened cats))"
    by (simp add: fetchCategories_def io_defs run_defs)
  then show ?thesis by (simp add: flattened_def text_of_def tmpl_def)
qed

theorem fetchCategories_flattens_witness:
  "fst (fetchCategories
     (\<lambda>h rq. Inr \<lparr>status = 200, json = Inr (JObj [(''category_list'', JObj [(''categories'', JArr
        [JObj [(''id'', JNum 1), (''name'', JStr ''Dev''),
               (''subcategory_list'', JArr [JObj [(''id'', JNum 2), (''name'', JStr ''Web'')],
                                            JObj [(''id'', JNum 3), (''name'', JStr ''Ops'')]])],
         JObj [(''id'', JNum 4), (''name'', JStr ''Meta'')]])])])\<rparr>)
     \<lparr>baseUrl = Some ''https://forum.example'', userApiKey = Some ''key''\<rparr>
     \<lparr>requests = [], notices = []\<rparr>)
   = Ret [\<lparr>name = Some (JStr ''Dev''), id' = Some (JNum 1)\<rparr>,
          \<lparr>name = Some (JStr ''Dev > Web''), id' = Some (JNum 2)\<rparr>,
          \<lparr>name = Some (JStr ''Dev > Ops''), id' = Some (JNum 3)\<rparr>,
          \<lparr>name = Some (JStr ''Meta''), id' = Some (JNum 4)\<rparr>]"
  using fetchCategories_flattens [of
     "\<lambda>h rq. Inr \<lparr>status = 200, json = Inr (JObj [(''category_list'', JObj [(''categories'', JArr
        [JObj [(''id'', JNum 1), (''name'', JStr ''Dev''),
               (''subcategory_list'', JArr [JObj [(''id'', JNum 2), (''name'', JStr ''Web'')],
                                            JObj [(''id'', JNum 3), (''name'', JStr ''Ops'')]])],
         JObj [(''id'', JNum 4), (''name'', JStr ''Meta'')]])])])\<rparr>"
     "\<lparr>requests = [], notices = []\<rparr>"
     "\<lparr>baseUrl = Some ''https://forum.example'', userApiKey = Some ''key''\<rparr>"
     "\<lparr>status = 200, json = Inr (JObj [(''category_list'', JObj [(''categories'', JArr
        [JObj [(''id'', JNum 1), (''name'', JStr ''Dev''),
               (''subcategory_list'', JArr [JObj [(''id'', JNum 2), (''name'', JStr ''Web'')],
                                            JObj [(''id'', JNum 3), (''name'', JStr ''Ops'')]])],
         JObj [(''id'', JNum 4), (''name'', JStr ''Meta'')]])])])\<rparr>"
     "JObj [(''category_list'', JObj [(''categories'', JArr
        [JObj [(''id'', JNum 1), (''name'', JStr ''Dev''),
               (''subcategory_list'', JArr [JObj [(''id'', JNum 2), (''name'', JStr ''Web'')],
                                            JObj [(''id'', JNum 3), (''name'', JStr ''Ops'')]])],
         JObj [(''id'', JNum 4), (''name'', JStr ''Meta'')]])])]"
     "JObj [(''categories'', JArr
        [JObj [(''id'', JNum 1), (''name'', JStr ''Dev''),
               (''subcategory_list'', JArr [JObj [(''id'', JNum 2), (''name'', JStr ''Web'')],
                                            JObj [(''id'', JNum 3), (''name'', JStr ''Ops'')]])],
         JObj [(''id'', JNum 4), (''name'', JStr ''Meta'')]])]"
     "[JObj [(''id'', JNum 1), (''name'', JStr ''Dev''),
               (''subcategory_list'', JArr [JObj [(''id'', JNum 2), (''name'', JStr ''Web'')],
                                            JObj [(''id'', JNum 3), (''name'', JStr ''Ops'')]])],
         JObj [(''id'', JNum 4), (''name'', JStr ''Meta'')]]"]
  by (simp add: field_def shaped_category_def flattened_def subcategories_def tmpl_def
        has_text_def text_of_def)

text \<open>
  Outside that shape: a category name that shadows \<^verbatim>\<open>toString\<close> has no text,
  the template literal throws, and the result is the empty list with a notification.
\<close>

lemma fetchCategories_name_without_text:
  "fetchCategories
     (\<lambda>h rq. Inr \<lparr>status = 200, json = Inr (JObj [(''category_list'', JObj [(''categories'', JArr
        [JObj [(''id'', JNum 1), (''name'', JObj [(''toString'', JNum 1)]),
               (''subcategory_list'', JArr [JObj [(''id'', JNum 2), (''name'', JStr ''Web'')]])]])])])\<rparr>)
     \<lparr>baseUrl = Some ''https://forum.example'', userApiKey = Some ''key''\<rparr>
     \<lparr>requests = [], notices = []\<rparr>
   = (Ret [],
      \<lparr>requests = [get_request \<lparr>baseUrl = Some ''https://forum.example'', userApiKey = Some ''key''\<rparr>
                      ''/categories.json?include_subcategories=true''],
       notices = [NotifyUserError ''Exception while fetching categories: '' TypeError]\<rparr>)"
  by (simp add: fetchCategories_def io_defs run_defs categories_of_def js_forEach_def
        push_category_def push_subcategory_def tmpl_def)

subsection \<open>fetchTags merges by name and keeps the larger count\<close>

text \<open>
  C4. Whatever fetchTags returns has at most one entry for a name. For a 200 tags
  response, the result is the merged map (top-level tags, then the tags of
  \<^verbatim>\<open>extras.tag_groups\<close>) sorted by descending count, and a name that stands in
  both sources, with count \<open>c1\<close> at the top level and \<open>c2\<close> in a tag group, is
  sorted by the maximum of the two, which is not their sum when both are positive.
\<close>

theorem fetchTags_merge:
  "(\<forall>tgs. fst (fetchTags net st w) = Ret tgs \<longrightarrow> distinct (map name tgs))
   \<and> (\<forall>r data tops.
        net (requests w) (get_request st ''/tags.json'') = Inr r \<and> status r = 200
        \<and> json r = Inr data \<and> field data ''tags'' = Some (JArr tops) \<and> shaped_tags data tops
        \<longrightarrow> (\<exists>cc. fst (fetchTags net st w)
                   = Ret (map (\<lambda>e. \<lparr>name = fst e, canCreate = cc\<rparr>)
                           (sort_key (\<lambda>e. - snd e) (merged_tags data tops))))
            \<and> (\<forall>n c1 c2. counts n (top_entries tops) = [c1] \<and> counts n (group_entries data) = [c2]
                 \<longrightarrow> map_of (merged_tags data tops) n = Some (max c1 c2)
                     \<and> (0 < c1 \<and> 0 < c2 \<longrightarrow> map_of (merged_tags data tops) n \<noteq> Some (c1 + c2))))"
proof (intro conjI allI impI)
  fix tgs assume "fst (fetchTags net st w) = Ret tgs"
  then show "distinct (map name tgs)" by (rule fetchTags_distinct)
next
  fix r data tops
  assume a: "net (requests w) (get_request st ''/tags.json'') = Inr r \<and> status r = 200
        \<and> json r = Inr data \<and> field data ''tags'' = Some (JArr tops) \<and> shaped_tags data tops"
  then have nn: "data \<noteq> JNull" by (cases data) (simp_all add: field_def)
  with a have m: "all_tags data (JArr tops) = Ret (merged_tags data tops)"
    by (simp add: all_tags_shaped)
  from a have "\<exists>cc. fst (fetchTags net st w) = bnd (all_tags data (JArr tops)) (\<lambda>m. Ret (sorted_tags cc m))
              \<or> (\<exists>e. all_tags data (JArr tops) = Throw e \<and> fst (fetchTags net st w) = Ret [])"
    using fetchTags_with_tags [of net w st r data "JArr tops"] by simp
  with m show "\<exists>cc. fst (fetchTags net st w)
                   = Ret (map (\<lambda>e. \<lparr>name = fst e, canCreate = cc\<rparr>)
                           (sort_key (\<lambda>e. - snd e) (merged_tags data tops)))"
    by (auto simp add: bnd_def sorted_tags_def)
next
  fix r data tops n c1 c2
  assume "counts n (top_entries tops) = [c1] \<and> counts n (group_entries data) = [c2]"
  then show "map_of (merged_tags data tops) n = Some (max c1 c2)"
    by (simp add: merged_tags_def merged_two_counts)
next
  fix r data tops n c1 c2
  assume "counts n (top_entries tops) = [c1] \<and> counts n (group_entries data) = [c2]"
     and "0 < c1 \<and> 0 < c2"
  then show "map_of (merged_tags data tops) n \<noteq> Some (c1 + c2)"
    by (simp add: merged_tags_def merged_two_counts max_def)
qed

theorem fetchTags_merge_witness:
  "fst (fetchTags
     (\<lambda>h rq. Inr \<lparr>status = 200, json = Inr (JObj
        [(''tags'', JArr [JObj [(''name'', JStr ''a''), (''count'', JNum 5)],
                          JObj [(''name'', JStr ''b''), (''count'', JNum 7)]]),
         (''extras'', JObj [(''tag_groups'', JArr
            [JObj [(''tags'', JArr [JObj [(''name'', JStr ''a''), (''count'', JNum 10)]])]])])])\<rparr>)
     \<lparr>baseUrl = Some ''https://forum.example'', userApiKey = Some ''key''\<rparr>
     \<lparr>requests = [], notices = []\<rparr>)
   = Ret [\<lparr>name = Some (JStr ''a''), canCreate = JBool False\<rparr>,
          \<lparr>name = Some (JStr ''b''), canCreate = JBool False\<rparr>]
   \<and> map_of (merged_tags (JObj
        [(''tags'', JArr [JObj [(''name'', JStr ''a''), (''count'', JNum 5)],
                          JObj [(''name'', JStr ''b''), (''count'', JNum 7)]]),
         (''extras'', JObj [(''tag_groups'', JArr
            [JObj [(''tags'', JArr [JObj [(''name'', JStr ''a''), (''count'', JNum 10)]])]])])])
        [JObj [(''name'', JStr ''a''), (''count'', JNum 5)],
         JObj [(''name'', JStr ''b''), (''count'', JNum 7)]]) (Some (JStr ''a'')) = Some 10"
  using fetchTags_merge [of
     "\<lambda>h rq. Inr \<lparr>status = 200, json = Inr (JObj
        [(''tags'', JArr [JObj [(''name'', JStr ''a''), (''count'', JNum 5)],
                          JObj [(''name'', JStr ''b''), (''count'', JNum 7)]]),
         (''extras'', JObj [(''tag_groups'', JArr
            [JObj [(''tags'', JArr [JObj [(''name'', JStr ''a''), (''count'', JNum 10)]])]])])])\<rparr>"
     "\<lparr>baseUrl = Some ''https://forum.example'', userApiKey = Some ''key''\<rparr>"
     "\<lparr>requests = [], notices = []\<rparr>"]
  by (simp add: fetchTags_def checkCanCreateTags_def io_defs run_defs all_tags_def js_forEach_def
        set_tag_def merge_tag_def merge_group_def map_key_def count_or_0_def sorted_tags_def
        merged_tags_def top_entries_def group_entries_def tag_groups_def group_tags_def entry_def
        field_def count_num_def merge_entry_def set_entry_def)

end
